theory Spec2Isabelle
  imports Main
begin

section \<open>Errors, results and the execution monad\<close>

text \<open>
  Every exception the source raises or lets pass is a value of \<open>error\<close>.
  \<^item> \<open>ClientError code\<close> is botocore's \<open>ClientError\<close> with \<open>e.response['Error']['Code'] = code\<close>;
    the IAM client's \<open>NoSuchEntityException\<close> and \<open>EntityAlreadyExistsException\<close> are the
    client errors with the codes \<open>NoSuchEntity\<close> and \<open>EntityAlreadyExists\<close>.
  \<^item> \<open>WaiterError\<close> is botocore's waiter failure, \<open>RetryError last\<close> is tenacity's
    \<open>RetryError\<close>, carrying the exception of the last attempt (if that attempt raised).
  \<^item> The four resource exceptions carry their \<open>resource_id\<close>.
\<close>

datatype error =
    ValueError
  | AttributeError
  | KeyError
  | IndexError
  | ParamValidationError
  | ClientError string
  | WaiterError
  | RetryError "error option"
  | ResourceExistsException string
  | ResourceDoesNotExistException string
  | ResourceClobberedException string
  | CannotDeleteResourceException "string list"

text \<open>The remote operations the source issues, as they appear in the call log.\<close>

datatype call =
    DescribeVpcs | DescribeTags | CreateTags | DescribeSubnets | CreateVpc
  | WaitVpcExists | WaitVpcAvailable | DescribeAvailabilityZones | CreateSubnet
  | WaitSubnetAvailable | DeleteSubnet | DeleteVpc
  | DescribeSecurityGroups | CreateSecurityGroup | AuthorizeSecurityGroupIngress
  | DescribeInstances | TerminateInstances | DeleteSecurityGroup
  | DescribeComputeEnvironments
  | GetRole | ListAttachedRolePolicies | ListPolicies | CreateRole | AttachRolePolicy
  | CreateInstanceProfile | WaitInstanceProfileExists | AddRoleToInstanceProfile
  | ListInstanceProfilesForRole | RemoveRoleFromInstanceProfile | DeleteInstanceProfile
  | DetachRolePolicy | DeleteRole

text \<open>The calls that only read the remote state.\<close>

fun read_only :: "call \<Rightarrow> bool" where
  "read_only DescribeVpcs = True"
| "read_only DescribeTags = True"
| "read_only DescribeSubnets = True"
| "read_only WaitVpcExists = True"
| "read_only WaitVpcAvailable = True"
| "read_only DescribeAvailabilityZones = True"
| "read_only WaitSubnetAvailable = True"
| "read_only DescribeSecurityGroups = True"
| "read_only DescribeInstances = True"
| "read_only DescribeComputeEnvironments = True"
| "read_only GetRole = True"
| "read_only ListAttachedRolePolicies = True"
| "read_only ListPolicies = True"
| "read_only WaitInstanceProfileExists = True"
| "read_only ListInstanceProfilesForRole = True"
| "read_only c = False"

subsection \<open>IPv4 networks\<close>

text \<open>
  A CIDR block \<open>a.b.c.d/p\<close> is kept in parsed form: the network address as the integer
  \<open>int(network_address)\<close> and the prefix length. \<open>IPv4Network\<close> is the strict constructor of
  Python's \<open>ipaddress\<close> module on that form: it rejects an address outside 32 bits, a prefix
  longer than 32 and a block with host bits set (all of them \<open>ValueError\<close>s, the only
  class the source catches).
\<close>

record ipv4net =
  network_address :: nat
  prefixlen :: nat

definition IPv4Network :: "ipv4net \<Rightarrow> error + ipv4net" where
  "IPv4Network c =
     (if prefixlen c \<le> 32 \<and> network_address c < 2 ^ 32
         \<and> network_address c mod 2 ^ (32 - prefixlen c) = 0
      then Inr c else Inl ValueError)"

definition num_addresses :: "ipv4net \<Rightarrow> nat" where
  "num_addresses c = 2 ^ (32 - prefixlen c)"

text \<open>The addresses a block covers, for stating overlap and nesting.\<close>

definition addresses :: "ipv4net \<Rightarrow> nat set" where
  "addresses c = {network_address c ..< network_address c + num_addresses c}"

text \<open>
  \<open>IPv4Network.subnets(prefixlen_diff=d)\<close> as CPython writes it: a /32 yields itself,
  a new prefix beyond 32 is a \<open>ValueError\<close>, otherwise the blocks start at
  \<open>range(start, end, step)\<close> with \<open>step = (hostmask + 1) >> d\<close>.
\<close>

definition py_range :: "nat \<Rightarrow> nat \<Rightarrow> nat \<Rightarrow> nat list" where
  "py_range start stop step = map (\<lambda>k. start + k * step) [0 ..< (stop - start + step - 1) div step]"

definition subnets :: "ipv4net \<Rightarrow> nat \<Rightarrow> error + ipv4net list" where
  "subnets c d =
     (if prefixlen c = 32 then Inr [c]
      else if prefixlen c + d > 32 then Inl ValueError
      else Inr (map (\<lambda>a. \<lparr>network_address = a, prefixlen = prefixlen c + d\<rparr>)
                  (py_range (network_address c) (network_address c + num_addresses c)
                     (num_addresses c div 2 ^ d))))"

text \<open>
  \<open>ceil(log2(n))\<close> on a positive integer, computed on integers: the least \<open>d\<close> with
  \<open>n \<le> 2 ^ d\<close> (lemma \<open>ceil_log2_least\<close> below). \<open>log2(0)\<close> raises \<open>ValueError\<close>.
\<close>

fun ceil_log2 :: "nat \<Rightarrow> nat" where
  "ceil_log2 n = (if n \<le> 1 then 0 else Suc (ceil_log2 ((n + 1) div 2)))"

declare ceil_log2.simps [simp del]

definition py_ceil_log2 :: "nat \<Rightarrow> error + nat" where
  "py_ceil_log2 n = (if n = 0 then Inl ValueError else Inr (ceil_log2 n))"

subsection \<open>The remote provider\<close>

text \<open>
  The remote service is an external collaborator; the model keeps the state its answers
  depend on. Every operation can also fail with an injected error (\<open>fault\<close>: throttling,
  access denied, a waiter timing out), so that the source's error paths are reachable.
\<close>

type_synonym tag = "string \<times> string"

record vpc_desc =
  VpcId :: string
  CidrBlock :: ipv4net
  InstanceTenancy :: string

record subnet_desc =
  SubnetId :: string
  sn_VpcId :: string
  sn_CidrBlock :: ipv4net
  sn_AvailabilityZone :: string

record ip_permission =
  IpProtocol :: string
  FromPort :: nat
  ToPort :: nat
  IpRanges :: "string list"
  Ipv6Ranges :: "string list"

record sg_desc =
  GroupId :: string
  GroupName :: string
  sg_VpcId :: string
  sg_Description :: string
  IpPermissions :: "ip_permission list"

record instance_desc =
  InstanceId :: string
  in_VpcId :: string
  in_SecurityGroups :: "string list"

record ce_desc =
  computeEnvironmentName :: string
  computeEnvironmentArn :: string
  serviceRole :: string
  status :: string
  securityGroupIds :: "string list"

record statement =
  Effect :: string
  Principal_Service :: string
  Action :: string

record policy_document =
  Statement :: "statement list"

record role_desc =
  RoleName :: string
  Arn :: string
  AssumeRolePolicyDocument :: policy_document
  Description :: "string option"
  AttachedPolicies :: "string list"

record policy_desc =
  PolicyName :: string
  PolicyArn :: string

record profile_desc =
  InstanceProfileName :: string
  ip_Arn :: string
  ip_Roles :: "string list"

record aws =
  vpcs :: "vpc_desc list"
  tags :: "string \<Rightarrow> tag list"
  subnet_list :: "subnet_desc list"
  zones :: "string list"
  security_groups :: "sg_desc list"
  instances :: "instance_desc list"
  compute_environments :: "ce_desc list"
  roles :: "role_desc list"
  policy_pages :: "policy_desc list list"
  instance_profiles :: "profile_desc list"
  id_supply :: "string list"
  fault :: "call \<Rightarrow> error option"

text \<open>
  The world a lifecycle operation runs in: the remote state, the Local Registry (section,
  then id, to name), the log of remote calls issued so far, and how many retries a retry
  loop's time budget allows (a function of its wait cap and its stop delay: real time is
  abstracted to a number of attempts).
\<close>

record world =
  remote :: aws
  registry :: "string \<Rightarrow> string \<Rightarrow> string option"
  calls :: "call list"
  retry_budget :: "nat \<Rightarrow> nat \<Rightarrow> nat"

type_synonym 'a M = "world \<Rightarrow> (error + 'a) \<times> world"

definition return :: "'a \<Rightarrow> 'a M" where
  "return x = (\<lambda>w. (Inr x, w))"

definition throw :: "error \<Rightarrow> 'a M" where
  "throw e = (\<lambda>w. (Inl e, w))"

definition bnd :: "'a M \<Rightarrow> ('a \<Rightarrow> 'b M) \<Rightarrow> 'b M" where
  "bnd m f = (\<lambda>w. case m w of (Inl e, w') \<Rightarrow> (Inl e, w') | (Inr x, w') \<Rightarrow> f x w')"

text \<open>\<open>try: m except Exception as e: h e\<close>\<close>

definition catch :: "'a M \<Rightarrow> (error \<Rightarrow> 'a M) \<Rightarrow> 'a M" where
  "catch m h = (\<lambda>w. case m w of (Inl e, w') \<Rightarrow> h e w' | (Inr x, w') \<Rightarrow> (Inr x, w'))"

definition lift :: "error + 'a \<Rightarrow> 'a M" where
  "lift r = (\<lambda>w. (r, w))"

text \<open>
  One remote call: it is logged, fails with the injected fault if there is one, and
  otherwise answers from (and updates) the remote state.
\<close>

definition api :: "call \<Rightarrow> (aws \<Rightarrow> (error + 'a) \<times> aws) \<Rightarrow> 'a M" where
  "api c f = (\<lambda>w.
     let w1 = w\<lparr>calls := calls w @ [c]\<rparr> in
     case fault (remote w) c of
       Some e \<Rightarrow> (Inl e, w1)
     | None \<Rightarrow> (case f (remote w) of (r, a) \<Rightarrow> (r, w1\<lparr>remote := a\<rparr>)))"

definition api_read :: "call \<Rightarrow> (aws \<Rightarrow> error + 'a) \<Rightarrow> 'a M" where
  "api_read c f = api c (\<lambda>a. (f a, a))"

text \<open>
  A waiter of the client, \<open>get_waiter(name).wait(...)\<close>: botocore polls the remote until
  the state is reached. It raises \<open>WaiterError\<close> when its attempts run out before that, and
  it raises \<open>WaiterError\<close> as well when the remote answers a poll with an error: no
  \<open>ClientError\<close> leaves a waiter as it is. An exception that is not an answer of the
  remote passes through the waiter.
\<close>

definition waiter :: "call \<Rightarrow> (aws \<Rightarrow> bool) \<Rightarrow> unit M" where
  "waiter c reached =
     catch (api_read c (\<lambda>a. if reached a then Inr () else Inl WaiterError))
       (\<lambda>e. case e of ClientError code \<Rightarrow> throw WaiterError | _ \<Rightarrow> throw e)"

fun for_each :: "('a \<Rightarrow> unit M) \<Rightarrow> 'a list \<Rightarrow> unit M" where
  "for_each f [] = return ()"
| "for_each f (x # xs) = bnd (f x) (\<lambda>_. for_each f xs)"

fun collect :: "('a \<Rightarrow> 'b M) \<Rightarrow> 'a list \<Rightarrow> 'b list M" where
  "collect f [] = return []"
| "collect f (x # xs) = bnd (f x) (\<lambda>y. bnd (collect f xs) (\<lambda>ys. return (y # ys)))"

subsection \<open>Retrying\<close>

text \<open>
  \<open>tenacity.Retrying(wait=wait_exponential(max=m), stop=stop_after_delay(d), retry=r).call(f)\<close>:
  the call is attempted; an outcome the retry condition accepts is retried while the
  budget lasts and ends in \<open>RetryError\<close> when it is exhausted; any other exception is
  re-raised at once and any other result returned. \<open>retry_if_exception_type\<close> gives a
  condition on exceptions only (\<open>rr = (\<lambda>_. False)\<close>), \<open>retry_if_result\<close> one on results
  only (\<open>rx = (\<lambda>_. False)\<close>).
\<close>

fun retry_loop :: "(error \<Rightarrow> bool) \<Rightarrow> ('a \<Rightarrow> bool) \<Rightarrow> nat \<Rightarrow> 'a M \<Rightarrow> 'a M" where
  "retry_loop rx rr 0 m = (\<lambda>w. case m w of
       (Inl e, w') \<Rightarrow> if rx e then (Inl (RetryError (Some e)), w') else (Inl e, w')
     | (Inr v, w') \<Rightarrow> if rr v then (Inl (RetryError None), w') else (Inr v, w'))"
| "retry_loop rx rr (Suc n) m = (\<lambda>w. case m w of
       (Inl e, w') \<Rightarrow> if rx e then retry_loop rx rr n m w' else (Inl e, w')
     | (Inr v, w') \<Rightarrow> if rr v then retry_loop rx rr n m w' else (Inr v, w'))"

definition Retrying_call :: "nat \<Rightarrow> nat \<Rightarrow> (error \<Rightarrow> bool) \<Rightarrow> ('a \<Rightarrow> bool) \<Rightarrow> 'a M \<Rightarrow> 'a M" where
  "Retrying_call max_wait stop_delay rx rr m =
     (\<lambda>w. retry_loop rx rr (retry_budget w max_wait stop_delay) m w)"

definition retry_if_exception_type :: "(error \<Rightarrow> bool) \<Rightarrow> nat \<Rightarrow> nat \<Rightarrow> 'a M \<Rightarrow> 'a M" where
  "retry_if_exception_type rx max_wait stop_delay m =
     Retrying_call max_wait stop_delay rx (\<lambda>_. False) m"

definition retry_if_result :: "('a \<Rightarrow> bool) \<Rightarrow> nat \<Rightarrow> nat \<Rightarrow> 'a M \<Rightarrow> 'a M" where
  "retry_if_result rr max_wait stop_delay m =
     Retrying_call max_wait stop_delay (\<lambda>_. False) rr m"

subsection \<open>The Local Registry\<close>

text \<open>
  Modelled from the spec: \<open>cloudknot.config\<close> is not among the sources. The spec gives it
  as a store with \<open>add(section, id, name)\<close> and \<open>remove(section, id)\<close>, read-after-write
  consistent within the process.
\<close>

definition add_resource :: "string \<Rightarrow> string \<Rightarrow> string \<Rightarrow> unit M" where
  "add_resource section rid nm =
     (\<lambda>w. (Inr (), w\<lparr>registry := (registry w)(section := (registry w section)(rid \<mapsto> nm))\<rparr>))"

definition remove_resource :: "string \<Rightarrow> string \<Rightarrow> unit M" where
  "remove_resource section rid =
     (\<lambda>w. (Inr (), w\<lparr>registry := (registry w)(section := (registry w section)(rid := None))\<rparr>))"

text \<open>Python's truth value of an optional string argument: \<open>None\<close> and \<open>''\<close> are false.\<close>

definition truthy :: "string option \<Rightarrow> bool" where
  "truthy s = (case s of None \<Rightarrow> False | Some x \<Rightarrow> x \<noteq> [])"

section \<open>The EC2 gateway\<close>

fun set_tag :: "tag \<Rightarrow> tag list \<Rightarrow> tag list" where
  "set_tag (k, v) [] = [(k, v)]"
| "set_tag (k, v) ((k', v') # ts) =
     (if k' = k then (k, v) # ts else (k', v') # set_tag (k, v) ts)"

text \<open>
  \<open>describe_vpcs(VpcIds=[vpc_id])\<close>: the descriptions, each with its \<open>Tags\<close> key
  (absent, here \<open>None\<close>, when the VPC has no tag).
\<close>

definition describe_vpcs :: "string \<Rightarrow> (vpc_desc \<times> tag list option) list M" where
  "describe_vpcs vid = api_read DescribeVpcs (\<lambda>a.
     case filter (\<lambda>v. VpcId v = vid) (vpcs a) of
       [] \<Rightarrow> Inl (ClientError ''InvalidVpcID.NotFound'')
     | vs \<Rightarrow> Inr (map (\<lambda>v. (v, if tags a (VpcId v) = [] then None else Some (tags a (VpcId v)))) vs))"

text \<open>
  \<open>describe_tags\<close> with the filters resource-type = vpc, key = Name, value = name: the
  \<open>ResourceId\<close>s of the matching tags.
\<close>

definition describe_tags :: "string option \<Rightarrow> string list M" where
  "describe_tags nm = (case nm of
       None \<Rightarrow> throw ParamValidationError
     | Some n \<Rightarrow> api_read DescribeTags (\<lambda>a.
         Inr (map VpcId (filter (\<lambda>v. (''Name'', n) \<in> set (tags a (VpcId v))) (vpcs a)))))"

definition create_tags :: "string list \<Rightarrow> tag list \<Rightarrow> unit M" where
  "create_tags resources tgs = api CreateTags (\<lambda>a.
     (Inr (), a\<lparr>tags := (\<lambda>r. if r \<in> set resources then fold set_tag tgs (tags a r) else tags a r)\<rparr>))"

definition describe_subnets :: "string \<Rightarrow> subnet_desc list M" where
  "describe_subnets vid = api_read DescribeSubnets (\<lambda>a.
     Inr (filter (\<lambda>s. sn_VpcId s = vid) (subnet_list a)))"

definition create_vpc :: "ipv4net \<Rightarrow> string \<Rightarrow> string M" where
  "create_vpc cidr tenancy = api CreateVpc (\<lambda>a.
     case id_supply a of
       [] \<Rightarrow> (Inl (ClientError ''VpcLimitExceeded''), a)
     | i # rest \<Rightarrow>
         (Inr i, a\<lparr>vpcs := vpcs a @ [\<lparr>VpcId = i, CidrBlock = cidr, InstanceTenancy = tenancy\<rparr>],
                   id_supply := rest\<rparr>))"

definition wait_vpc :: "call \<Rightarrow> string \<Rightarrow> unit M" where
  "wait_vpc c vid = waiter c (\<lambda>a. vid \<in> set (map VpcId (vpcs a)))"

definition describe_availability_zones :: "string list M" where
  "describe_availability_zones = api_read DescribeAvailabilityZones (\<lambda>a. Inr (zones a))"

definition create_subnet :: "string \<Rightarrow> ipv4net \<Rightarrow> string \<Rightarrow> string M" where
  "create_subnet zone cidr vid = api CreateSubnet (\<lambda>a.
     if vid \<notin> set (map VpcId (vpcs a)) then (Inl (ClientError ''InvalidVpcID.NotFound''), a)
     else case id_supply a of
       [] \<Rightarrow> (Inl (ClientError ''SubnetLimitExceeded''), a)
     | i # rest \<Rightarrow>
         (Inr i, a\<lparr>subnet_list := subnet_list a @
                      [\<lparr>SubnetId = i, sn_VpcId = vid, sn_CidrBlock = cidr,
                        sn_AvailabilityZone = zone\<rparr>],
                   id_supply := rest\<rparr>))"

definition wait_subnet_available :: "string list \<Rightarrow> unit M" where
  "wait_subnet_available sids = waiter WaitSubnetAvailable (\<lambda>a.
     list_all (\<lambda>i. i \<in> set (map SubnetId (subnet_list a))) sids)"

definition delete_subnet :: "string \<Rightarrow> unit M" where
  "delete_subnet sid = api DeleteSubnet (\<lambda>a.
     if sid \<in> set (map SubnetId (subnet_list a))
     then (Inr (), a\<lparr>subnet_list := filter (\<lambda>s. SubnetId s \<noteq> sid) (subnet_list a)\<rparr>)
     else (Inl (ClientError ''InvalidSubnetID.NotFound''), a))"

text \<open>
  The remote refuses to delete a VPC that still holds a security group or a subnet, with
  the error code \<open>DependencyViolation\<close>.
\<close>

definition delete_vpc :: "string \<Rightarrow> unit M" where
  "delete_vpc vid = api DeleteVpc (\<lambda>a.
     if vid \<notin> set (map VpcId (vpcs a)) then (Inl (ClientError ''InvalidVpcID.NotFound''), a)
     else if filter (\<lambda>g. sg_VpcId g = vid) (security_groups a) \<noteq> []
             \<or> filter (\<lambda>s. sn_VpcId s = vid) (subnet_list a) \<noteq> []
     then (Inl (ClientError ''DependencyViolation''), a)
     else (Inr (), a\<lparr>vpcs := filter (\<lambda>v. VpcId v \<noteq> vid) (vpcs a)\<rparr>))"

text \<open>\<open>describe_security_groups\<close>, by \<open>GroupIds=[gid]\<close> and by the two filter sets the source uses.\<close>

definition describe_security_groups_ids :: "string \<Rightarrow> sg_desc list M" where
  "describe_security_groups_ids gid = api_read DescribeSecurityGroups (\<lambda>a.
     case filter (\<lambda>g. GroupId g = gid) (security_groups a) of
       [] \<Rightarrow> Inl (ClientError ''InvalidGroup.NotFound'')
     | gs \<Rightarrow> Inr gs)"

definition describe_security_groups_name_vpc :: "string option \<Rightarrow> string option \<Rightarrow> sg_desc list M" where
  "describe_security_groups_name_vpc nm vid = (case (nm, vid) of
       (Some n, Some v) \<Rightarrow> api_read DescribeSecurityGroups (\<lambda>a.
          Inr (filter (\<lambda>g. GroupName g = n \<and> sg_VpcId g = v) (security_groups a)))
     | _ \<Rightarrow> throw ParamValidationError)"

definition describe_security_groups_vpc :: "string \<Rightarrow> sg_desc list M" where
  "describe_security_groups_vpc vid = api_read DescribeSecurityGroups (\<lambda>a.
     Inr (filter (\<lambda>g. sg_VpcId g = vid) (security_groups a)))"

definition create_security_group :: "string \<Rightarrow> string \<Rightarrow> string \<Rightarrow> string M" where
  "create_security_group nm desc vid = api CreateSecurityGroup (\<lambda>a.
     if vid \<notin> set (map VpcId (vpcs a)) then (Inl (ClientError ''InvalidVpcID.NotFound''), a)
     else if filter (\<lambda>g. GroupName g = nm \<and> sg_VpcId g = vid) (security_groups a) \<noteq> []
     then (Inl (ClientError ''InvalidGroup.Duplicate''), a)
     else case id_supply a of
       [] \<Rightarrow> (Inl (ClientError ''SecurityGroupLimitExceeded''), a)
     | i # rest \<Rightarrow>
         (Inr i, a\<lparr>security_groups := security_groups a @
                      [\<lparr>GroupId = i, GroupName = nm, sg_VpcId = vid, sg_Description = desc,
                        IpPermissions = []\<rparr>],
                   id_supply := rest\<rparr>))"

definition authorize_security_group_ingress :: "string \<Rightarrow> ip_permission list \<Rightarrow> unit M" where
  "authorize_security_group_ingress gid perms = api AuthorizeSecurityGroupIngress (\<lambda>a.
     if gid \<notin> set (map GroupId (security_groups a)) then (Inl (ClientError ''InvalidGroup.NotFound''), a)
     else (Inr (), a\<lparr>security_groups :=
             map (\<lambda>g. if GroupId g = gid then g\<lparr>IpPermissions := IpPermissions g @ perms\<rparr> else g)
               (security_groups a)\<rparr>))"

text \<open>\<open>describe_instances\<close> filtered by vpc-id: the reservations, each with its instances.\<close>

definition describe_instances :: "string \<Rightarrow> instance_desc list list M" where
  "describe_instances vid = api_read DescribeInstances (\<lambda>a.
     Inr (map (\<lambda>i. [i]) (filter (\<lambda>i. in_VpcId i = vid) (instances a))))"

definition terminate_instances :: "string list \<Rightarrow> unit M" where
  "terminate_instances ids = api TerminateInstances (\<lambda>a.
     (Inr (), a\<lparr>instances := filter (\<lambda>i. InstanceId i \<notin> set ids) (instances a)\<rparr>))"

definition delete_security_group :: "string \<Rightarrow> unit M" where
  "delete_security_group gid = api DeleteSecurityGroup (\<lambda>a.
     if gid \<notin> set (map GroupId (security_groups a)) then (Inl (ClientError ''InvalidGroup.NotFound''), a)
     else if filter (\<lambda>i. gid \<in> set (in_SecurityGroups i)) (instances a) \<noteq> []
     then (Inl (ClientError ''DependencyViolation''), a)
     else (Inr (), a\<lparr>security_groups := filter (\<lambda>g. GroupId g \<noteq> gid) (security_groups a)\<rparr>))"

text \<open>\<open>BATCH.describe_compute_environments\<close>, of all environments or of the one named.\<close>

definition describe_compute_environments :: "string option \<Rightarrow> ce_desc list M" where
  "describe_compute_environments which = api_read DescribeComputeEnvironments (\<lambda>a.
     case which of
       None \<Rightarrow> Inr (compute_environments a)
     | Some ce_arn \<Rightarrow> Inr (filter (\<lambda>c. computeEnvironmentArn c = ce_arn) (compute_environments a)))"

text \<open>
  \<open>EC2.exceptions.<name>\<close>: the EC2 client's exception namespace holds \<open>ClientError\<close>
  only; looking up any other attribute raises \<open>AttributeError\<close>. The result is the
  exception class, as the predicate telling its instances.
\<close>

definition EC2_exceptions :: "string \<Rightarrow> (error \<Rightarrow> bool) M" where
  "EC2_exceptions attr =
     (if attr = ''ClientError'' then return (\<lambda>e. case e of ClientError _ \<Rightarrow> True | _ \<Rightarrow> False)
      else throw AttributeError)"

section \<open>Network: class Vpc\<close>

text \<open>
  Modelled from the spec: \<open>base_classes.NamedObject\<close> is not among the sources. The spec's
  data model gives every managed resource a \<open>name\<close> and a \<open>clobbered\<close> flag, false at
  construction.
\<close>

record NamedObject =
  name :: string
  clobbered :: bool

record Vpc = NamedObject +
  pre_existing :: bool
  ipv4_cidr :: ipv4net
  instance_tenancy :: string
  vpc_id :: string
  subnet_ids :: "string list"

text \<open>
  The namedtuple \<open>ResourceExists\<close> of \<open>Vpc._exists_already\<close>: \<open>None\<close> stands for
  \<open>exists=False\<close> (every other field \<open>None\<close>), \<open>Some r\<close> for \<open>exists=True\<close>.
\<close>

record vpc_resource =
  r_name :: string
  r_ipv4_cidr :: ipv4net
  r_instance_tenancy :: string
  r_vpc_id :: string
  r_subnet_ids :: "string list"

definition Vpc_exists_already :: "string option \<Rightarrow> string option \<Rightarrow> vpc_resource option M" where
  "Vpc_exists_already vpc_id_arg name_arg =
     bnd (if truthy vpc_id_arg then
            catch (bnd (describe_vpcs (the vpc_id_arg)) (\<lambda>vs. return (Some vs)))
              (\<lambda>e. case e of
                 ClientError code \<Rightarrow>
                   if code = ''InvalidVpcID.NotFound'' then return None else throw e
               | _ \<Rightarrow> throw e)
          else
            bnd (describe_tags name_arg) (\<lambda>ts. case ts of
                [] \<Rightarrow> return None
              | rid # _ \<Rightarrow> bnd (describe_vpcs rid) (\<lambda>vs. return (Some vs))))
       (\<lambda>found. case found of
          Some ((vpc, tags_opt) # _) \<Rightarrow>
            bnd (case filter (\<lambda>d. fst d = ''Name'') (case tags_opt of None \<Rightarrow> [] | Some ts \<Rightarrow> ts) of
                   name_tag # _ \<Rightarrow> return (snd name_tag)
                 | [] \<Rightarrow>
                     bnd (create_tags [VpcId vpc]
                            [(''owner'', ''cloudknot''),
                             (''Name'', ''cloudknot-acquired-pre-existing-vpc'')])
                       (\<lambda>_. return ''cloudknot-acquired-pre-existing-vpc''))
              (\<lambda>nm. bnd (describe_subnets (VpcId vpc)) (\<lambda>sns.
                 return (Some \<lparr>r_name = nm, r_ipv4_cidr = CidrBlock vpc,
                                r_instance_tenancy = InstanceTenancy vpc, r_vpc_id = VpcId vpc,
                                r_subnet_ids = map SubnetId sns\<rparr>)))
        | _ \<Rightarrow> return None)"

definition Vpc_create :: "string \<Rightarrow> ipv4net \<Rightarrow> string \<Rightarrow> string M" where
  "Vpc_create self_name self_ipv4_cidr self_instance_tenancy =
     bnd (create_vpc self_ipv4_cidr self_instance_tenancy) (\<lambda>vid.
     bnd (wait_vpc WaitVpcExists vid) (\<lambda>_.
     bnd (wait_vpc WaitVpcAvailable vid) (\<lambda>_.
     bnd (create_tags [vid] [(''owner'', ''cloudknot''), (''Name'', self_name)]) (\<lambda>_.
     bnd (add_resource ''vpc'' vid self_name) (\<lambda>_.
     return vid)))))"

text \<open>
  The subnet blocks of \<open>Vpc._add_subnets\<close> (the computation between listing the zones and
  creating the subnets): parse the block, check that it has an address per zone, take
  \<open>ceil(log2(len(zones)))\<close> extra prefix bits, and keep the first \<open>len(zones)\<close> subnets.
\<close>

definition subnet_ipv4_cidrs :: "ipv4net \<Rightarrow> nat \<Rightarrow> error + ipv4net list" where
  "subnet_ipv4_cidrs self_ipv4_cidr nzones =
     (case IPv4Network self_ipv4_cidr of
        Inl e \<Rightarrow> Inl e
      | Inr cidr \<Rightarrow>
          if num_addresses cidr < nzones then Inl ValueError
          else (case py_ceil_log2 nzones of
                  Inl e \<Rightarrow> Inl e
                | Inr prefixlen_diff \<Rightarrow>
                    (case subnets cidr prefixlen_diff of
                       Inl e \<Rightarrow> Inl e
                     | Inr sns \<Rightarrow> Inr (take nzones sns))))"

definition Vpc_add_subnets :: "string \<Rightarrow> ipv4net \<Rightarrow> string \<Rightarrow> string list M" where
  "Vpc_add_subnets self_name self_ipv4_cidr self_vpc_id =
     bnd describe_availability_zones (\<lambda>zs.
     bnd (lift (subnet_ipv4_cidrs self_ipv4_cidr (length zs))) (\<lambda>cidrs.
     bnd (collect (\<lambda>(zone, subnet_cidr). create_subnet zone subnet_cidr self_vpc_id)
            (zip zs cidrs)) (\<lambda>sids.
     bnd (retry_if_exception_type (\<lambda>e. e = WaiterError) 60 300 (wait_subnet_available sids)) (\<lambda>_.
     bnd (create_tags sids [(''owner'', ''cloudknot''), (''vpc-name'', self_name)]) (\<lambda>_.
     return sids)))))"

text \<open>
  \<open>Vpc.__init__(vpc_id, name, ipv4_cidr, instance_tenancy)\<close>. An argument is supplied when
  it is truthy; a supplied \<open>ipv4_cidr\<close> is \<open>Some\<close> block (in parsed form, possibly invalid).
\<close>

definition Vpc_init :: "string option \<Rightarrow> string option \<Rightarrow> ipv4net option \<Rightarrow> string option \<Rightarrow> Vpc M" where
  "Vpc_init vpc_id_arg name_arg ipv4_cidr_arg instance_tenancy_arg =
     (if \<not> (truthy vpc_id_arg \<or> truthy name_arg) then throw ValueError
      else if truthy vpc_id_arg
              \<and> (truthy name_arg \<or> ipv4_cidr_arg \<noteq> None \<or> truthy instance_tenancy_arg)
      then throw ValueError
      else
        bnd (Vpc_exists_already vpc_id_arg name_arg) (\<lambda>resource. case resource of
          Some r \<Rightarrow>
            if ipv4_cidr_arg \<noteq> None \<or> truthy instance_tenancy_arg
            then throw (ResourceExistsException (r_vpc_id r))
            else
              bnd (add_resource ''vpc'' (r_vpc_id r) (r_name r)) (\<lambda>_.
              return \<lparr>name = r_name r, clobbered = False, pre_existing = True,
                       ipv4_cidr = r_ipv4_cidr r, instance_tenancy = r_instance_tenancy r,
                       vpc_id = r_vpc_id r, subnet_ids = r_subnet_ids r\<rparr>)
        | None \<Rightarrow>
            if truthy vpc_id_arg then throw (ResourceDoesNotExistException (the vpc_id_arg))
            else
              bnd (case ipv4_cidr_arg of
                     Some c \<Rightarrow> lift (IPv4Network c)
                   | None \<Rightarrow> lift (IPv4Network \<lparr>network_address = 167772160, prefixlen = 16\<rparr>))
                (\<lambda>cidr.
              bnd (if truthy instance_tenancy_arg then
                     (if the instance_tenancy_arg \<in> {''default'', ''dedicated''}
                      then return (the instance_tenancy_arg) else throw ValueError)
                   else return ''default'') (\<lambda>tenancy.
              bnd (Vpc_create (the name_arg) cidr tenancy) (\<lambda>vid.
              bnd (Vpc_add_subnets (the name_arg) cidr vid) (\<lambda>sids.
              return \<lparr>name = the name_arg, clobbered = False, pre_existing = False,
                       ipv4_cidr = cidr, instance_tenancy = tenancy,
                       vpc_id = vid, subnet_ids = sids\<rparr>))))))"

text \<open>
  \<open>Vpc.clobber()\<close>. The method neither reads nor sets the \<open>clobbered\<close> flag: the instance
  it leaves is the one it was called on.
\<close>

definition Vpc_clobber :: "Vpc \<Rightarrow> Vpc M" where
  "Vpc_clobber self =
     catch
       (bnd (for_each delete_subnet (subnet_ids self)) (\<lambda>_.
        bnd (delete_vpc (vpc_id self)) (\<lambda>_.
        bnd (remove_resource ''vpc'' (vpc_id self)) (\<lambda>_.
        return self))))
       (\<lambda>e. case e of
          ClientError code \<Rightarrow>
            if code = ''DependencyViolation'' then
              bnd (describe_security_groups_vpc (vpc_id self)) (\<lambda>sgs.
              throw (CannotDeleteResourceException (map GroupId sgs)))
            else throw e
        | _ \<Rightarrow> throw e)"

section \<open>class SecurityGroup\<close>

record SecurityGroup = NamedObject +
  sg_pre_existing :: bool
  vpc :: "Vpc option"
  sg_vpc_id :: string
  description :: string
  security_group_id :: string

text \<open>
  The \<open>vpc\<close> argument of the constructor: absent (\<open>None\<close>, or any falsy value, which the
  source treats alike), a \<open>Vpc\<close> instance, or a truthy value of another type.
\<close>

datatype vpc_arg = VpcNone | VpcObj Vpc | VpcOther

record sg_resource =
  r_sg_name :: string
  r_sg_vpc_id :: string
  r_description :: string
  r_security_group_id :: string

definition SecurityGroup_exists_already ::
    "string option \<Rightarrow> string option \<Rightarrow> string option \<Rightarrow> sg_resource option M" where
  "SecurityGroup_exists_already security_group_id_arg name_arg vpc_id_arg =
     bnd (if truthy security_group_id_arg then
            catch (bnd (describe_security_groups_ids (the security_group_id_arg))
                     (\<lambda>gs. return (Some gs)))
              (\<lambda>e. case e of
                 ClientError code \<Rightarrow>
                   if code \<in> {''InvalidGroup.NotFound'', ''InvalidGroupId.Malformed''}
                   then return None else throw e
               | _ \<Rightarrow> throw e)
          else
            bnd (describe_security_groups_name_vpc name_arg vpc_id_arg)
              (\<lambda>gs. return (Some gs)))
       (\<lambda>response. case response of
          Some (sg # _) \<Rightarrow>
            return (Some \<lparr>r_sg_name = GroupName sg, r_sg_vpc_id = sg_VpcId sg,
                           r_description = sg_Description sg,
                           r_security_group_id = GroupId sg\<rparr>)
        | _ \<Rightarrow> return None)"

definition ip_permissions :: "ip_permission list" where
  "ip_permissions =
     [\<lparr>IpProtocol = ''TCP'', FromPort = 80, ToPort = 80,
       IpRanges = [''0.0.0.0/0''], Ipv6Ranges = [''::/0'']\<rparr>,
      \<lparr>IpProtocol = ''TCP'', FromPort = 22, ToPort = 22,
       IpRanges = [''0.0.0.0/0''], Ipv6Ranges = [''::/0'']\<rparr>]"

text \<open>
  \<open>SecurityGroup._create()\<close>. After the group is created the source builds its retry
  policy from \<open>EC2.exceptions.ClientErro\<close>, spelled so.
\<close>

definition SecurityGroup_create :: "string \<Rightarrow> string \<Rightarrow> string \<Rightarrow> string M" where
  "SecurityGroup_create self_name self_description self_vpc_vpc_id =
     bnd (create_security_group self_name self_description self_vpc_vpc_id) (\<lambda>group_id.
     bnd (EC2_exceptions ''ClientErro'') (\<lambda>exception_type.
     bnd (retry_if_exception_type exception_type 60 300
            (authorize_security_group_ingress group_id ip_permissions)) (\<lambda>_.
     bnd (retry_if_exception_type exception_type 60 300
            (create_tags [group_id] [(''owner'', ''cloudknot'')])) (\<lambda>_.
     bnd (add_resource ''security-groups'' group_id self_name) (\<lambda>_.
     return group_id)))))"

definition SecurityGroup_init ::
    "string option \<Rightarrow> string option \<Rightarrow> vpc_arg \<Rightarrow> string option \<Rightarrow> SecurityGroup M" where
  "SecurityGroup_init security_group_id_arg name_arg vpc_arg description_arg =
     (if \<not> (truthy security_group_id_arg \<or> (truthy name_arg \<and> vpc_arg \<noteq> VpcNone))
      then throw ValueError
      else if truthy security_group_id_arg
              \<and> (truthy name_arg \<or> vpc_arg \<noteq> VpcNone \<or> truthy description_arg)
      then throw ValueError
      else if vpc_arg = VpcOther then throw ValueError
      else
        bnd (SecurityGroup_exists_already security_group_id_arg name_arg
               (case vpc_arg of VpcObj v \<Rightarrow> Some (vpc_id v) | _ \<Rightarrow> None))
          (\<lambda>resource. case resource of
             Some r \<Rightarrow>
               if truthy name_arg \<or> vpc_arg \<noteq> VpcNone
               then throw (ResourceExistsException (r_security_group_id r))
               else
                 bnd (add_resource ''security-groups'' (r_security_group_id r) (r_sg_name r)) (\<lambda>_.
                 return \<lparr>name = r_sg_name r, clobbered = False, sg_pre_existing = True,
                          vpc = None, sg_vpc_id = r_sg_vpc_id r,
                          description = r_description r,
                          security_group_id = r_security_group_id r\<rparr>)
           | None \<Rightarrow>
               if truthy security_group_id_arg
               then throw (ResourceDoesNotExistException (the security_group_id_arg))
               else (case vpc_arg of
                       VpcObj v \<Rightarrow>
                         bnd (SecurityGroup_create (the name_arg)
                                (if truthy description_arg then the description_arg
                                 else ''This security group was automatically generated by cloudknot.'')
                                (vpc_id v)) (\<lambda>gid.
                         return \<lparr>name = the name_arg, clobbered = False, sg_pre_existing = False,
                                  vpc = Some v, sg_vpc_id = vpc_id v,
                                  description =
                                    (if truthy description_arg then the description_arg
                                     else ''This security group was automatically generated by cloudknot.''),
                                  security_group_id = gid\<rparr>)
                     | _ \<Rightarrow> throw AttributeError)))"

text \<open>
  Modelled from the spec: \<open>base_classes.wait_for_compute_environment\<close> is not among the
  sources. The spec has \<open>SecurityGroup\<close> destruction wait for each compute environment that
  references the group to finish deleting, polling at bounded exponential backoff.
\<close>

definition is_deleting :: "ce_desc list \<Rightarrow> bool" where
  "is_deleting res = (case res of ce # _ \<Rightarrow> status ce = ''DELETING'' | [] \<Rightarrow> False)"

definition wait_for_compute_environment :: "string \<Rightarrow> string \<Rightarrow> unit M" where
  "wait_for_compute_environment ce_arn ce_name =
     bnd (retry_if_result is_deleting 16 120 (describe_compute_environments (Some ce_arn)))
       (\<lambda>_. return ())"

text \<open>
  \<open>SecurityGroup.clobber()\<close>; \<open>time.sleep(30)\<close> before the single retry of the delete has no
  effect on the state. The method neither reads nor sets the \<open>clobbered\<close> flag.
\<close>

definition SecurityGroup_clobber :: "SecurityGroup \<Rightarrow> SecurityGroup M" where
  "SecurityGroup_clobber self =
     bnd (describe_instances (sg_vpc_id self)) (\<lambda>reservations.
     bnd (if concat (map (\<lambda>r. map InstanceId
                (filter (\<lambda>i. security_group_id self \<in> set (in_SecurityGroups i)) r))
              reservations) \<noteq> []
          then terminate_instances
                 (concat (map (\<lambda>r. map InstanceId
                    (filter (\<lambda>i. security_group_id self \<in> set (in_SecurityGroups i)) r))
                  reservations))
          else return ()) (\<lambda>_.
     bnd (describe_compute_environments None) (\<lambda>ces.
     bnd (for_each (\<lambda>ce. wait_for_compute_environment (computeEnvironmentArn ce)
                            (computeEnvironmentName ce))
            (filter (\<lambda>ce. security_group_id self \<in> set (securityGroupIds ce)) ces)) (\<lambda>_.
     bnd (catch (delete_security_group (security_group_id self))
            (\<lambda>e. case e of
               ClientError code \<Rightarrow>
                 if code = ''DependencyViolation''
                 then delete_security_group (security_group_id self)
                 else throw e
             | _ \<Rightarrow> throw e)) (\<lambda>_.
     bnd (remove_resource ''security-groups'' (security_group_id self)) (\<lambda>_.
     return self))))))"

section \<open>The IAM gateway\<close>

record policies_page =
  Policies :: "policy_desc list"
  IsTruncated :: bool
  Marker :: "nat option"

text \<open>
  \<open>list_policies\<close> answers one page of the policy catalog; a page that is not the last is
  truncated and carries the marker of the next one.
\<close>

definition list_policies :: "nat option \<Rightarrow> policies_page M" where
  "list_policies marker = api_read ListPolicies (\<lambda>a.
     if (case marker of None \<Rightarrow> 0 | Some m \<Rightarrow> m) < length (policy_pages a)
     then Inr \<lparr>Policies = policy_pages a ! (case marker of None \<Rightarrow> 0 | Some m \<Rightarrow> m),
               IsTruncated = (Suc (case marker of None \<Rightarrow> 0 | Some m \<Rightarrow> m) < length (policy_pages a)),
               Marker = (if Suc (case marker of None \<Rightarrow> 0 | Some m \<Rightarrow> m) < length (policy_pages a)
                         then Some (Suc (case marker of None \<Rightarrow> 0 | Some m \<Rightarrow> m)) else None)\<rparr>
     else if marker = None then Inr \<lparr>Policies = [], IsTruncated = False, Marker = None\<rparr>
     else Inl (ClientError ''InvalidInput''))"

definition get_role :: "string \<Rightarrow> role_desc M" where
  "get_role rn = api_read GetRole (\<lambda>a.
     case filter (\<lambda>r. RoleName r = rn) (roles a) of
       [] \<Rightarrow> Inl (ClientError ''NoSuchEntity'')
     | r # _ \<Rightarrow> Inr r)"

definition list_attached_role_policies :: "string \<Rightarrow> string list M" where
  "list_attached_role_policies rn = api_read ListAttachedRolePolicies (\<lambda>a.
     case filter (\<lambda>r. RoleName r = rn) (roles a) of
       [] \<Rightarrow> Inl (ClientError ''NoSuchEntity'')
     | r # _ \<Rightarrow> Inr (AttachedPolicies r))"

definition create_role :: "string \<Rightarrow> policy_document \<Rightarrow> string \<Rightarrow> string M" where
  "create_role rn doc desc = api CreateRole (\<lambda>a.
     if filter (\<lambda>r. RoleName r = rn) (roles a) \<noteq> []
     then (Inl (ClientError ''EntityAlreadyExists''), a)
     else (Inr (''arn:aws:iam::role/'' @ rn),
           a\<lparr>roles := roles a @
                [\<lparr>RoleName = rn, Arn = ''arn:aws:iam::role/'' @ rn,
                  AssumeRolePolicyDocument = doc, Description = Some desc,
                  AttachedPolicies = []\<rparr>]\<rparr>))"

definition attach_role_policy :: "string \<Rightarrow> string \<Rightarrow> unit M" where
  "attach_role_policy parn rn = api AttachRolePolicy (\<lambda>a.
     case filter (\<lambda>p. PolicyArn p = parn) (concat (policy_pages a)) of
       [] \<Rightarrow> (Inl (ClientError ''NoSuchEntity''), a)
     | p # _ \<Rightarrow>
         if filter (\<lambda>r. RoleName r = rn) (roles a) = []
         then (Inl (ClientError ''NoSuchEntity''), a)
         else (Inr (), a\<lparr>roles :=
                 map (\<lambda>r. if RoleName r = rn
                          then r\<lparr>AttachedPolicies := AttachedPolicies r @ [PolicyName p]\<rparr> else r)
                   (roles a)\<rparr>))"

definition detach_role_policy :: "string \<Rightarrow> string \<Rightarrow> unit M" where
  "detach_role_policy rn parn = api DetachRolePolicy (\<lambda>a.
     case filter (\<lambda>p. PolicyArn p = parn) (concat (policy_pages a)) of
       [] \<Rightarrow> (Inl (ClientError ''NoSuchEntity''), a)
     | p # _ \<Rightarrow>
         if filter (\<lambda>r. RoleName r = rn \<and> PolicyName p \<in> set (AttachedPolicies r)) (roles a) = []
         then (Inl (ClientError ''NoSuchEntity''), a)
         else (Inr (), a\<lparr>roles :=
                 map (\<lambda>r. if RoleName r = rn
                          then r\<lparr>AttachedPolicies :=
                                   filter (\<lambda>n. n \<noteq> PolicyName p) (AttachedPolicies r)\<rparr>
                          else r)
                   (roles a)\<rparr>))"

definition create_instance_profile :: "string \<Rightarrow> unit M" where
  "create_instance_profile pn = api CreateInstanceProfile (\<lambda>a.
     if filter (\<lambda>p. InstanceProfileName p = pn) (instance_profiles a) \<noteq> []
     then (Inl (ClientError ''EntityAlreadyExists''), a)
     else (Inr (), a\<lparr>instance_profiles := instance_profiles a @
             [\<lparr>InstanceProfileName = pn, ip_Arn = ''arn:aws:iam::instance-profile/'' @ pn,
               ip_Roles = []\<rparr>]\<rparr>))"

definition wait_instance_profile_exists :: "string \<Rightarrow> unit M" where
  "wait_instance_profile_exists pn = waiter WaitInstanceProfileExists (\<lambda>a.
     filter (\<lambda>p. InstanceProfileName p = pn) (instance_profiles a) \<noteq> [])"

definition add_role_to_instance_profile :: "string \<Rightarrow> string \<Rightarrow> unit M" where
  "add_role_to_instance_profile pn rn = api AddRoleToInstanceProfile (\<lambda>a.
     if filter (\<lambda>p. InstanceProfileName p = pn) (instance_profiles a) = []
        \<or> filter (\<lambda>r. RoleName r = rn) (roles a) = []
     then (Inl (ClientError ''NoSuchEntity''), a)
     else if filter (\<lambda>p. InstanceProfileName p = pn \<and> ip_Roles p \<noteq> []) (instance_profiles a) \<noteq> []
     then (Inl (ClientError ''LimitExceeded''), a)
     else (Inr (), a\<lparr>instance_profiles :=
             map (\<lambda>p. if InstanceProfileName p = pn then p\<lparr>ip_Roles := [rn]\<rparr> else p)
               (instance_profiles a)\<rparr>))"

definition list_instance_profiles_for_role :: "string \<Rightarrow> profile_desc list M" where
  "list_instance_profiles_for_role rn = api_read ListInstanceProfilesForRole (\<lambda>a.
     if filter (\<lambda>r. RoleName r = rn) (roles a) = [] then Inl (ClientError ''NoSuchEntity'')
     else Inr (filter (\<lambda>p. rn \<in> set (ip_Roles p)) (instance_profiles a)))"

definition remove_role_from_instance_profile :: "string \<Rightarrow> string \<Rightarrow> unit M" where
  "remove_role_from_instance_profile pn rn = api RemoveRoleFromInstanceProfile (\<lambda>a.
     if filter (\<lambda>p. InstanceProfileName p = pn \<and> rn \<in> set (ip_Roles p)) (instance_profiles a) = []
     then (Inl (ClientError ''NoSuchEntity''), a)
     else (Inr (), a\<lparr>instance_profiles :=
             map (\<lambda>p. if InstanceProfileName p = pn
                      then p\<lparr>ip_Roles := filter (\<lambda>r. r \<noteq> rn) (ip_Roles p)\<rparr> else p)
               (instance_profiles a)\<rparr>))"

definition delete_instance_profile :: "string \<Rightarrow> unit M" where
  "delete_instance_profile pn = api DeleteInstanceProfile (\<lambda>a.
     if filter (\<lambda>p. InstanceProfileName p = pn) (instance_profiles a) = []
     then (Inl (ClientError ''NoSuchEntity''), a)
     else if filter (\<lambda>p. InstanceProfileName p = pn \<and> ip_Roles p \<noteq> []) (instance_profiles a) \<noteq> []
     then (Inl (ClientError ''DeleteConflict''), a)
     else (Inr (), a\<lparr>instance_profiles :=
             filter (\<lambda>p. InstanceProfileName p \<noteq> pn) (instance_profiles a)\<rparr>))"

definition delete_role :: "string \<Rightarrow> unit M" where
  "delete_role rn = api DeleteRole (\<lambda>a.
     if filter (\<lambda>r. RoleName r = rn) (roles a) = []
     then (Inl (ClientError ''NoSuchEntity''), a)
     else if filter (\<lambda>r. RoleName r = rn \<and> AttachedPolicies r \<noteq> []) (roles a) \<noteq> []
             \<or> filter (\<lambda>p. rn \<in> set (ip_Roles p)) (instance_profiles a) \<noteq> []
     then (Inl (ClientError ''DeleteConflict''), a)
     else (Inr (), a\<lparr>roles := filter (\<lambda>r. RoleName r \<noteq> rn) (roles a)\<rparr>))"

section \<open>Role: class IamRole\<close>

text \<open>
  Modelled from the spec: \<open>base_classes.ObjectWithArn\<close>, its \<open>check_profile\<close> and
  \<open>_get_section_name\<close> are not among the sources. The spec gives a role a remote
  identifier (its ARN) and a registry section named after the resource kind; it gives
  \<open>check_profile\<close> no part in the lifecycle.
\<close>

record ObjectWithArn = NamedObject +
  arn :: string

definition get_section_name :: "string \<Rightarrow> string" where
  "get_section_name resource_type = resource_type"

definition check_profile :: "unit M" where
  "check_profile = return ()"

record IamRole = ObjectWithArn +
  region :: string
  role_pre_existing :: bool
  role_description :: string
  service :: string
  policies :: "string list"
  role_policy_document :: policy_document
  section_name :: string

text \<open>The values a dynamically typed argument of the constructor can take.\<close>

datatype pyval = PyNone | PyBool bool | PyInt int | PyStr string | PySeq "pyval list"

fun py_truthy :: "pyval \<Rightarrow> bool" where
  "py_truthy PyNone = False"
| "py_truthy (PyBool b) = b"
| "py_truthy (PyInt i) = (i \<noteq> 0)"
| "py_truthy (PyStr s) = (s \<noteq> [])"
| "py_truthy (PySeq xs) = (xs \<noteq> [])"

fun is_str :: "pyval \<Rightarrow> bool" where
  "is_str (PyStr s) = True"
| "is_str v = False"

fun str_of :: "pyval \<Rightarrow> string" where
  "str_of (PyStr s) = s"
| "str_of v = []"

record role_exists =
  rx_description :: string
  rx_role_policy_document :: policy_document
  rx_policies :: "string list"
  rx_arn :: string

definition is_NoSuchEntity :: "error \<Rightarrow> bool" where
  "is_NoSuchEntity e = (e = ClientError ''NoSuchEntity'')"

text \<open>
  \<open>IamRole._exists_already()\<close>: \<open>get_role\<close> is retried while it raises \<open>NoSuchEntity\<close>; the
  \<open>RetryError\<close> that ends the retries is re-raised as its last exception, and a
  \<open>NoSuchEntity\<close> then becomes \<open>exists=False\<close>. A role without a description gets the
  empty string.
\<close>

definition IamRole_exists_already :: "string \<Rightarrow> role_exists option M" where
  "IamRole_exists_already self_name =
     catch
       (bnd (retry_if_exception_type is_NoSuchEntity 4 5 (get_role self_name)) (\<lambda>role.
        bnd (list_attached_role_policies self_name) (\<lambda>attached_policies.
        return (Some \<lparr>rx_description = (case Description role of Some d \<Rightarrow> d | None \<Rightarrow> []),
                       rx_role_policy_document = AssumeRolePolicyDocument role,
                       rx_policies = attached_policies,
                       rx_arn = Arn role\<rparr>))))
       (\<lambda>e. case e of
          RetryError last_exc \<Rightarrow>
            (case last_exc of
               Some e' \<Rightarrow> if is_NoSuchEntity e' then return None else throw e'
             | None \<Rightarrow> throw e)
        | _ \<Rightarrow> throw e)"

text \<open>
  The pagination loop of the constructor: while the last response is truncated, fetch the
  page at its marker and append the policy names.
\<close>

function list_more_policies :: "policies_page \<Rightarrow> string list \<Rightarrow> string list M" where
  "list_more_policies response aws_policies w =
     (if IsTruncated response then
        (case Marker response of
           None \<Rightarrow> (Inl KeyError, w)
         | Some m \<Rightarrow>
             (case list_policies (Some m) w of
                (Inl e, w') \<Rightarrow> (Inl e, w')
              | (Inr response', w') \<Rightarrow>
                  list_more_policies response'
                    (aws_policies @ map PolicyName (Policies response')) w'))
      else (Inr aws_policies, w))"
  by pat_completeness auto
termination
  apply (relation "measure (\<lambda>(response, acc, w). if IsTruncated response
            then (case Marker response of None \<Rightarrow> 0
                  | Some m \<Rightarrow> Suc (length (policy_pages (remote w))) - m) else 0)")
   apply (auto simp: list_policies_def api_read_def api_def Let_def split: option.splits if_splits)
  done

declare list_more_policies.simps [simp del]

text \<open>
  The loop of \<open>_create\<close> and \<open>clobber\<close> that looks a policy's ARN up: while the current page
  does not hold the policy, fetch the page at \<open>policy_response['Marker']\<close> (a \<open>KeyError\<close> on
  the last page, which has no marker).
\<close>

function find_policy :: "string \<Rightarrow> policies_page \<Rightarrow> string M" where
  "find_policy policy policy_response w =
     (case filter (\<lambda>p. PolicyName p = policy) (Policies policy_response) of
        p # _ \<Rightarrow> (Inr (PolicyArn p), w)
      | [] \<Rightarrow>
          (case Marker policy_response of
             None \<Rightarrow> (Inl KeyError, w)
           | Some m \<Rightarrow>
               (case list_policies (Some m) w of
                  (Inl e, w') \<Rightarrow> (Inl e, w')
                | (Inr response', w') \<Rightarrow> find_policy policy response' w')))"
  by pat_completeness auto
termination
  apply (relation "measure (\<lambda>(policy, response, w).
            case Marker response of None \<Rightarrow> 0
            | Some m \<Rightarrow> Suc (length (policy_pages (remote w))) - m)")
   apply (auto simp: list_policies_def api_read_def api_def Let_def split: option.splits if_splits)
  done

declare find_policy.simps [simp del]

definition policy_arn_of :: "string \<Rightarrow> string M" where
  "policy_arn_of policy =
     bnd (list_policies None) (\<lambda>policy_response. find_policy policy policy_response)"

definition IamRole_create ::
    "string \<Rightarrow> policy_document \<Rightarrow> string \<Rightarrow> string list \<Rightarrow> bool \<Rightarrow> string M" where
  "IamRole_create self_name self_role_policy_document self_description self_policies add_instance_profile =
     bnd (create_role self_name self_role_policy_document self_description) (\<lambda>role_arn.
     bnd (for_each (\<lambda>policy.
            bnd (policy_arn_of policy) (\<lambda>policy_arn.
            retry_if_exception_type is_NoSuchEntity 4 5
              (attach_role_policy policy_arn self_name)))
            self_policies) (\<lambda>_.
     bnd (if add_instance_profile then
            catch
              (bnd (create_instance_profile self_name) (\<lambda>_.
               bnd (wait_instance_profile_exists self_name) (\<lambda>_.
               add_role_to_instance_profile self_name self_name)))
              (\<lambda>e. if e = ClientError ''EntityAlreadyExists''
                    then add_role_to_instance_profile self_name self_name
                    else throw e)
          else return ()) (\<lambda>_.
     bnd (add_resource (get_section_name ''roles'') self_name role_arn) (\<lambda>_.
     return role_arn))))"

definition allowed_services :: "string list" where
  "allowed_services = [''batch'', ''ec2'', ''ecs-tasks'', ''lambda'', ''spotfleet'']"

text \<open>
  The requested policies as the constructor reads them: a string is one policy name, a
  sequence of strings the set of its elements, anything else a \<open>ValueError\<close>. The code
  takes \<open>tuple(set(policies))\<close>, whose order Python leaves to the hashing of the strings;
  here the elements come without duplicates in the order of their first occurrence, one
  of the orders the code can give.
\<close>

definition input_policies_of :: "pyval \<Rightarrow> error + string list" where
  "input_policies_of policies_arg =
     (case policies_arg of
        PyStr s \<Rightarrow> Inr [s]
      | PySeq xs \<Rightarrow> if list_all is_str xs then Inr (remdups (map str_of xs)) else Inl ValueError
      | _ \<Rightarrow> Inl ValueError)"

text \<open>
  \<open>IamRole.__init__(name, description, service, policies, add_instance_profile)\<close>. The
  policy check is \<open>input_policies < set(aws_policies)\<close>, Python's proper-subset test.
\<close>

definition IamRole_init ::
    "string \<Rightarrow> string option \<Rightarrow> string option \<Rightarrow> pyval \<Rightarrow> pyval \<Rightarrow> IamRole M" where
  "IamRole_init name_arg description_arg service_arg policies_arg add_instance_profile_arg =
     bnd (IamRole_exists_already name_arg) (\<lambda>role. case role of
       Some r \<Rightarrow>
         if truthy description_arg \<or> py_truthy policies_arg
            \<or> py_truthy add_instance_profile_arg \<or> truthy service_arg
         then throw (ResourceExistsException name_arg)
         else
           bnd (case Statement (rx_role_policy_document r) of
                  [] \<Rightarrow> throw IndexError
                | rpd_statement # _ \<Rightarrow> return (Principal_Service rpd_statement)) (\<lambda>svc.
           bnd (add_resource (get_section_name ''roles'') name_arg (rx_arn r)) (\<lambda>_.
           return \<lparr>name = name_arg, clobbered = False, arn = rx_arn r, region = ''global'',
                    role_pre_existing = True, role_description = rx_description r,
                    service = svc, policies = rx_policies r,
                    role_policy_document = rx_role_policy_document r,
                    section_name = get_section_name ''roles''\<rparr>))
     | None \<Rightarrow>
         if \<not> (truthy description_arg \<or> truthy service_arg \<or> py_truthy policies_arg)
         then throw (ResourceDoesNotExistException name_arg)
         else
           bnd (if (if truthy service_arg then the service_arg else ''ecs-tasks'')
                     \<in> set allowed_services
                then return ((if truthy service_arg then the service_arg else ''ecs-tasks'')
                             @ ''.amazonaws.com'')
                else throw ValueError) (\<lambda>svc.
           bnd (lift (input_policies_of policies_arg)) (\<lambda>input_policies.
           bnd (list_policies None) (\<lambda>response.
           bnd (list_more_policies response (map PolicyName (Policies response))) (\<lambda>aws_policies.
           bnd (if \<not> (set input_policies \<subset> set aws_policies) then throw ValueError
                else return ()) (\<lambda>_.
           bnd (case add_instance_profile_arg of
                  PyBool b \<Rightarrow> return b
                | _ \<Rightarrow> throw ValueError) (\<lambda>add_instance_profile.
           bnd (IamRole_create name_arg
                  \<lparr>Statement = [\<lparr>Effect = ''Allow'', Principal_Service = svc,
                                  Action = ''sts:AssumeRole''\<rparr>]\<rparr>
                  (if truthy description_arg then the description_arg
                   else ''This role was generated by cloudknot'')
                  input_policies add_instance_profile) (\<lambda>role_arn.
           return \<lparr>name = name_arg, clobbered = False, arn = role_arn, region = ''global'',
                    role_pre_existing = False,
                    role_description =
                      (if truthy description_arg then the description_arg
                       else ''This role was generated by cloudknot''),
                    service = svc, policies = input_policies,
                    role_policy_document =
                      \<lparr>Statement = [\<lparr>Effect = ''Allow'', Principal_Service = svc,
                                      Action = ''sts:AssumeRole''\<rparr>]\<rparr>,
                    section_name = get_section_name ''roles''\<rparr>))))))))"

text \<open>The property \<open>IamRole.instance_profile_arn\<close>.\<close>

definition IamRole_instance_profile_arn :: "IamRole \<Rightarrow> string option M" where
  "IamRole_instance_profile_arn self =
     (if clobbered self then throw (ResourceClobberedException (arn self))
      else
        bnd check_profile (\<lambda>_.
        bnd (list_instance_profiles_for_role (name self)) (\<lambda>profiles.
        case profiles of
          p # _ \<Rightarrow> return (Some (ip_Arn p))
        | [] \<Rightarrow> return None)))"

text \<open>
  \<open>IamRole.clobber()\<close>. It returns at once on a clobbered instance, and sets the flag when
  the role is deleted. A not-deletable error carries the ARNs of the blocking compute
  environments.
\<close>

definition IamRole_clobber :: "IamRole \<Rightarrow> IamRole M" where
  "IamRole_clobber self =
     (if clobbered self then return self
      else
        bnd check_profile (\<lambda>_.
        bnd (if service self = ''batch.amazonaws.com'' then
               bnd (describe_compute_environments None) (\<lambda>ces.
               if filter (\<lambda>c. status c \<notin> {''DELETING'', ''DELETED''})
                    (filter (\<lambda>c. serviceRole c = arn self) ces) \<noteq> []
               then throw (CannotDeleteResourceException
                      (map computeEnvironmentArn
                         (filter (\<lambda>c. status c \<notin> {''DELETING'', ''DELETED''})
                            (filter (\<lambda>c. serviceRole c = arn self) ces))))
               else
                 for_each (\<lambda>ce.
                   catch
                     (bnd (retry_if_result is_deleting 16 120
                             (describe_compute_environments (Some (computeEnvironmentArn ce))))
                        (\<lambda>_. return ()))
                     (\<lambda>e. case e of
                        RetryError _ \<Rightarrow>
                          throw (CannotDeleteResourceException [computeEnvironmentArn ce])
                      | _ \<Rightarrow> throw e))
                   (filter (\<lambda>c. serviceRole c = arn self) ces))
             else return ()) (\<lambda>_.
        bnd (IamRole_instance_profile_arn self) (\<lambda>profile_arn.
        bnd (if truthy profile_arn then
               bnd (list_instance_profiles_for_role (name self)) (\<lambda>profiles.
               case profiles of
                 [] \<Rightarrow> throw IndexError
               | p # _ \<Rightarrow>
                   bnd (remove_role_from_instance_profile (InstanceProfileName p) (name self)) (\<lambda>_.
                   delete_instance_profile (InstanceProfileName p)))
             else return ()) (\<lambda>_.
        bnd (for_each (\<lambda>policy.
               bnd (policy_arn_of policy) (\<lambda>policy_arn.
               detach_role_policy (name self) policy_arn))
               (policies self)) (\<lambda>_.
        bnd (delete_role (name self)) (\<lambda>_.
        bnd (remove_resource (section_name self) (name self)) (\<lambda>_.
        return (self\<lparr>clobbered := True\<rparr>)))))))))"

section \<open>Frame conditions and example worlds\<close>

text \<open>
  \<open>only_reads w w'\<close>: between \<open>w\<close> and \<open>w'\<close> the remote state and the registry are the same,
  and every remote call issued in between is a read.
\<close>

definition only_reads :: "world \<Rightarrow> world \<Rightarrow> bool" where
  "only_reads w w' =
     (remote w' = remote w \<and> registry w' = registry w \<and> retry_budget w' = retry_budget w
      \<and> (\<exists>cs. calls w' = calls w @ cs \<and> list_all read_only cs))"

definition same_registry :: "world \<Rightarrow> world \<Rightarrow> bool" where
  "same_registry w w' = (registry w' = registry w)"

text \<open>A computation keeps a relation between the world it starts in and the one it leaves.\<close>

definition keeps :: "(world \<Rightarrow> world \<Rightarrow> bool) \<Rightarrow> 'a M \<Rightarrow> bool" where
  "keeps R m = (\<forall>w. R w (snd (m w)))"

text \<open>
  An example remote state: a network \<open>vpc-1\<close> without tags that holds the security group
  \<open>sg-1\<close>, a network \<open>vpc-2\<close> tagged with the name \<open>net2\<close>, three availability zones, a
  policy catalog of two pages, and the batch service role \<open>r1\<close> with one attached policy.
  A retry loop gets one retry.
\<close>

definition aws_empty :: aws where
  "aws_empty =
     \<lparr>vpcs = [], tags = (\<lambda>_. []), subnet_list = [], zones = [], security_groups = [],
      instances = [], compute_environments = [], roles = [], policy_pages = [],
      instance_profiles = [], id_supply = [], fault = (\<lambda>_. None)\<rparr>"

definition demo_aws :: aws where
  "demo_aws = aws_empty
     \<lparr>vpcs := [\<lparr>VpcId = ''vpc-1'', CidrBlock = \<lparr>network_address = 167772160, prefixlen = 16\<rparr>,
                InstanceTenancy = ''default''\<rparr>,
               \<lparr>VpcId = ''vpc-2'', CidrBlock = \<lparr>network_address = 167837696, prefixlen = 16\<rparr>,
                InstanceTenancy = ''default''\<rparr>],
      tags := (\<lambda>_. [])(''vpc-2'' := [(''Name'', ''net2'')]),
      zones := [''zone-a'', ''zone-b'', ''zone-c''],
      security_groups := [\<lparr>GroupId = ''sg-1'', GroupName = ''web'', sg_VpcId = ''vpc-1'',
                           sg_Description = ''web servers'', IpPermissions = []\<rparr>],
      roles := [\<lparr>RoleName = ''r1'', Arn = ''arn:r1'',
                 AssumeRolePolicyDocument =
                   \<lparr>Statement = [\<lparr>Effect = ''Allow'', Principal_Service = ''batch.amazonaws.com'',
                                   Action = ''sts:AssumeRole''\<rparr>]\<rparr>,
                 Description = None, AttachedPolicies = [''P'']\<rparr>],
      policy_pages := [[\<lparr>PolicyName = ''P'', PolicyArn = ''arn:P''\<rparr>],
                       [\<lparr>PolicyName = ''Q'', PolicyArn = ''arn:Q''\<rparr>]],
      id_supply := [''id-1'', ''id-2'', ''id-3'', ''id-4'', ''id-5'']\<rparr>"

definition demo_world :: world where
  "demo_world =
     \<lparr>remote = demo_aws, registry = (\<lambda>_. Map.empty), calls = [], retry_budget = (\<lambda>_ _. Suc 0)\<rparr>"

text \<open>
  The example world with one remote operation failing with an injected error, and the
  example world with a compute environment of the role \<open>r1\<close> that stays in deletion.
\<close>

definition fault_world :: "call \<Rightarrow> error \<Rightarrow> world" where
  "fault_world c e = demo_world\<lparr>remote := demo_aws\<lparr>fault := (\<lambda>_. None)(c := Some e)\<rparr>\<rparr>"

definition deleting_world :: world where
  "deleting_world =
     demo_world\<lparr>remote := demo_aws\<lparr>compute_environments :=
       [\<lparr>computeEnvironmentName = ''ce-1'', computeEnvironmentArn = ''arn:ce-1'',
         serviceRole = ''arn:r1'', status = ''DELETING'', securityGroupIds = []\<rparr>]\<rparr>\<rparr>"

text \<open>The instance that adopting \<open>vpc-1\<close> of the example world gives.\<close>

definition demo_vpc1 :: Vpc where
  "demo_vpc1 =
     \<lparr>name = ''cloudknot-acquired-pre-existing-vpc'', clobbered = False, pre_existing = True,
      ipv4_cidr = \<lparr>network_address = 167772160, prefixlen = 16\<rparr>,
      instance_tenancy = ''default'', vpc_id = ''vpc-1'', subnet_ids = []\<rparr>"

text \<open>
  The instances that adopting \<open>vpc-2\<close>, \<open>sg-1\<close> and \<open>r1\<close> of the example world gives, and
  the worlds these adoptions leave.
\<close>

definition demo_vpc2 :: Vpc where
  "demo_vpc2 =
     \<lparr>name = ''net2'', clobbered = False, pre_existing = True,
      ipv4_cidr = \<lparr>network_address = 167837696, prefixlen = 16\<rparr>,
      instance_tenancy = ''default'', vpc_id = ''vpc-2'', subnet_ids = []\<rparr>"

definition demo_sg1 :: SecurityGroup where
  "demo_sg1 =
     \<lparr>name = ''web'', clobbered = False, sg_pre_existing = True, vpc = None,
      sg_vpc_id = ''vpc-1'', description = ''web servers'', security_group_id = ''sg-1''\<rparr>"

definition demo_role1 :: IamRole where
  "demo_role1 =
     \<lparr>name = ''r1'', clobbered = False, arn = ''arn:r1'', region = ''global'',
      role_pre_existing = True, role_description = [], service = ''batch.amazonaws.com'',
      policies = [''P''],
      role_policy_document =
        \<lparr>Statement = [\<lparr>Effect = ''Allow'', Principal_Service = ''batch.amazonaws.com'',
                        Action = ''sts:AssumeRole''\<rparr>]\<rparr>,
      section_name = ''roles''\<rparr>"

definition vpc2_adopted :: world where
  "vpc2_adopted = snd (Vpc_init (Some ''vpc-2'') None None None demo_world)"

definition sg1_adopted :: world where
  "sg1_adopted = snd (SecurityGroup_init (Some ''sg-1'') None VpcNone None demo_world)"

definition role1_adopted :: world where
  "role1_adopted = snd (IamRole_init ''r1'' None None (PySeq []) (PyBool False) demo_world)"

text \<open>
  The claim's words for the subnets of a network: block \<open>i\<close> of the partition of \<open>c\<close> into
  subnets with \<open>d\<close> extra prefix bits.
\<close>

definition partition_block :: "ipv4net \<Rightarrow> nat \<Rightarrow> nat \<Rightarrow> ipv4net" where
  "partition_block c d i =
     \<lparr>network_address = network_address c + i * 2 ^ (32 - (prefixlen c + d)),
      prefixlen = prefixlen c + d\<rparr>"

text \<open>What a computation leaves of the subnets and zones it found.\<close>

definition same_subnets :: "world \<Rightarrow> world \<Rightarrow> bool" where
  "same_subnets w w' =
     (subnet_list (remote w') = subnet_list (remote w) \<and> zones (remote w') = zones (remote w)
      \<and> fault (remote w') = fault (remote w))"

text \<open>
  The network that \<open>Vpc(name='net')\<close> creates in the example world (three zones, the
  default block \<open>10.0.0.0/16\<close>), and the world it leaves.
\<close>

definition demo_fresh_vpc :: Vpc where
  "demo_fresh_vpc =
     \<lparr>name = ''net'', clobbered = False, pre_existing = False,
      ipv4_cidr = \<lparr>network_address = 167772160, prefixlen = 16\<rparr>,
      instance_tenancy = ''default'', vpc_id = ''id-1'',
      subnet_ids = [''id-2'', ''id-3'', ''id-4'']\<rparr>"

definition net_created :: world where
  "net_created = snd (Vpc_init None (Some ''net'') None None demo_world)"

text \<open>
  The example world with a subnet in the network \<open>vpc-1\<close>, and the instance that adopting
  \<open>vpc-1\<close> gives there.
\<close>

definition subnet_world :: world where
  "subnet_world =
     demo_world\<lparr>remote := demo_aws\<lparr>subnet_list :=
       [\<lparr>SubnetId = ''subnet-1'', sn_VpcId = ''vpc-1'',
         sn_CidrBlock = \<lparr>network_address = 167772160, prefixlen = 24\<rparr>,
         sn_AvailabilityZone = ''zone-a''\<rparr>]\<rparr>\<rparr>"

definition demo_vpc1_subnet :: Vpc where
  "demo_vpc1_subnet = demo_vpc1\<lparr>subnet_ids := [''subnet-1'']\<rparr>"


section \<open>The monad and the gateway: basic facts\<close>

lemma return_apply: "return x w = (Inr x, w)"
  by (simp add: return_def)

lemma throw_apply: "throw e w = (Inl e, w)"
  by (simp add: throw_def)

lemma lift_apply: "lift r w = (r, w)"
  by (simp add: lift_def)

lemma bnd_apply:
  "bnd m f w = (case m w of (Inl e, w') \<Rightarrow> (Inl e, w') | (Inr x, w') \<Rightarrow> f x w')"
  by (simp add: bnd_def)

lemma catch_apply:
  "catch m h w = (case m w of (Inl e, w') \<Rightarrow> h e w' | (Inr x, w') \<Rightarrow> (Inr x, w'))"
  by (simp add: catch_def)

lemma bnd_Inr: "m w = (Inr x, w') \<Longrightarrow> bnd m f w = f x w'"
  by (simp add: bnd_apply)

lemma bnd_Inl: "m w = (Inl e, w') \<Longrightarrow> bnd m f w = (Inl e, w')"
  by (simp add: bnd_apply)

lemma bnd_InrE:
  assumes "bnd m f w = (Inr y, w')"
  obtains x w1 where "m w = (Inr x, w1)" and "f x w1 = (Inr y, w')"
  using assms by (auto simp: bnd_apply split: prod.splits sum.splits)

lemma list_more_policies_done:
  "\<not> IsTruncated r \<Longrightarrow> list_more_policies r acc w = (Inr acc, w)"
  by (simp add: list_more_policies.simps)

lemma list_more_policies_step:
  "IsTruncated r \<Longrightarrow> Marker r = Some m \<Longrightarrow> list_policies (Some m) w = (Inr r', w')
   \<Longrightarrow> list_more_policies r acc w = list_more_policies r' (acc @ map PolicyName (Policies r')) w'"
  by (subst list_more_policies.simps) simp

lemma find_policy_hit:
  "filter (\<lambda>p. PolicyName p = policy) (Policies r) = p # ps
   \<Longrightarrow> find_policy policy r w = (Inr (PolicyArn p), w)"
  by (subst find_policy.simps) simp

lemma find_policy_step:
  "filter (\<lambda>p. PolicyName p = policy) (Policies r) = [] \<Longrightarrow> Marker r = Some m
   \<Longrightarrow> list_policies (Some m) w = (Inr r', w') \<Longrightarrow> find_policy policy r w = find_policy policy r' w'"
  by (subst find_policy.simps) simp

text \<open>The definitions a run on a concrete world unfolds.\<close>

lemmas gateway_defs =
  api_def api_read_def waiter_def Let_def
  describe_vpcs_def describe_tags_def create_tags_def describe_subnets_def create_vpc_def
  wait_vpc_def describe_availability_zones_def create_subnet_def wait_subnet_available_def
  delete_subnet_def delete_vpc_def describe_security_groups_ids_def
  describe_security_groups_name_vpc_def describe_security_groups_vpc_def
  create_security_group_def authorize_security_group_ingress_def describe_instances_def
  terminate_instances_def delete_security_group_def describe_compute_environments_def
  EC2_exceptions_def list_policies_def get_role_def list_attached_role_policies_def
  create_role_def attach_role_policy_def detach_role_policy_def create_instance_profile_def
  wait_instance_profile_exists_def add_role_to_instance_profile_def
  list_instance_profiles_for_role_def remove_role_from_instance_profile_def
  delete_instance_profile_def delete_role_def add_resource_def remove_resource_def

lemmas run_defs =
  return_apply throw_apply lift_apply bnd_apply catch_apply gateway_defs truthy_def
  Retrying_call_def retry_if_exception_type_def retry_if_result_def
  Vpc_init_def Vpc_exists_already_def Vpc_create_def Vpc_add_subnets_def Vpc_clobber_def
  SecurityGroup_init_def SecurityGroup_exists_already_def SecurityGroup_create_def
  SecurityGroup_clobber_def IamRole_init_def IamRole_exists_already_def IamRole_create_def
  IamRole_clobber_def IamRole_instance_profile_arn_def is_NoSuchEntity_def policy_arn_of_def
  input_policies_of_def allowed_services_def get_section_name_def check_profile_def
  is_deleting_def wait_for_compute_environment_def
  list_more_policies_done list_more_policies_step find_policy_hit find_policy_step

lemmas demo_defs = demo_world_def demo_aws_def aws_empty_def fault_world_def deleting_world_def
  demo_vpc1_def demo_vpc2_def demo_sg1_def demo_role1_def

section \<open>Frame lemmas\<close>

lemma only_reads_reflp: "reflp only_reads"
  by (simp add: reflp_def only_reads_def)

lemma only_reads_transp: "transp only_reads"
  by (auto simp: transp_def only_reads_def)

lemma same_registry_reflp: "reflp same_registry"
  by (simp add: reflp_def same_registry_def)

lemma same_registry_transp: "transp same_registry"
  by (simp add: transp_def same_registry_def)

lemma keeps_return: "reflp R \<Longrightarrow> keeps R (return x)"
  by (simp add: keeps_def return_apply reflpD)

lemma keeps_throw: "reflp R \<Longrightarrow> keeps R (throw e)"
  by (simp add: keeps_def throw_apply reflpD)

lemma keeps_lift: "reflp R \<Longrightarrow> keeps R (lift r)"
  by (simp add: keeps_def lift_apply reflpD)

lemma keepsD: "keeps R m \<Longrightarrow> m w = (r, w') \<Longrightarrow> R w w'"
  by (auto simp: keeps_def dest: spec [of _ w])

lemma keeps_bnd:
  assumes "transp R" and "keeps R m" and "\<And>x. keeps R (f x)"
  shows "keeps R (bnd m f)"
  unfolding keeps_def
proof
  fix w
  obtain r w1 where mw: "m w = (r, w1)" by (cases "m w")
  have step: "R w w1" using assms(2) mw by (rule keepsD)
  show "R w (snd (bnd m f w))"
  proof (cases r)
    case (Inl e)
    then show ?thesis using mw step by (simp add: bnd_apply)
  next
    case (Inr x)
    obtain r2 w2 where fw: "f x w1 = (r2, w2)" by (cases "f x w1")
    have "R w1 w2" using assms(3) fw by (rule keepsD)
    with step have "R w w2" by (rule transpD [OF assms(1)])
    then show ?thesis using mw Inr fw by (simp add: bnd_apply)
  qed
qed

lemma keeps_catch:
  assumes "transp R" and "keeps R m" and "\<And>e. keeps R (h e)"
  shows "keeps R (catch m h)"
  unfolding keeps_def
proof
  fix w
  obtain r w1 where mw: "m w = (r, w1)" by (cases "m w")
  have step: "R w w1" using assms(2) mw by (rule keepsD)
  show "R w (snd (catch m h w))"
  proof (cases r)
    case (Inr x)
    then show ?thesis using mw step by (simp add: catch_apply)
  next
    case (Inl e)
    obtain r2 w2 where fw: "h e w1 = (r2, w2)" by (cases "h e w1")
    have "R w1 w2" using assms(3) fw by (rule keepsD)
    with step have "R w w2" by (rule transpD [OF assms(1)])
    then show ?thesis using mw Inl fw by (simp add: catch_apply)
  qed
qed

lemma keeps_retry_loop:
  assumes "transp R" and "keeps R m"
  shows "keeps R (retry_loop rx rr n m)"
proof (induction n)
  case 0
  show ?case unfolding keeps_def
  proof
    fix w
    obtain r w1 where mw: "m w = (r, w1)" by (cases "m w")
    have "R w w1" using assms(2) mw by (rule keepsD)
    then show "R w (snd (retry_loop rx rr 0 m w))"
      using mw by (cases r) auto
  qed
next
  case (Suc n)
  show ?case unfolding keeps_def
  proof
    fix w
    obtain r w1 where mw: "m w = (r, w1)" by (cases "m w")
    have a: "R w w1" using assms(2) mw by (rule keepsD)
    obtain r2 w2 where lw: "retry_loop rx rr n m w1 = (r2, w2)"
      by (cases "retry_loop rx rr n m w1")
    have "R w1 w2" using Suc lw by (rule keepsD)
    with a have "R w w2" by (rule transpD [OF assms(1)])
    with a show "R w (snd (retry_loop rx rr (Suc n) m w))"
      using mw lw by (cases r) auto
  qed
qed

lemma keeps_retry_exc:
  assumes "transp R" and "keeps R m"
  shows "keeps R (retry_if_exception_type rx mw sd m)"
  using keeps_retry_loop [OF assms]
  by (simp add: keeps_def retry_if_exception_type_def Retrying_call_def)

lemma keeps_retry_res:
  assumes "transp R" and "keeps R m"
  shows "keeps R (retry_if_result rr mw sd m)"
  using keeps_retry_loop [OF assms]
  by (simp add: keeps_def retry_if_result_def Retrying_call_def)

lemma keeps_for_each:
  assumes "reflp R" "transp R" and "\<And>x. keeps R (f x)"
  shows "keeps R (for_each f xs)"
proof (induction xs)
  case Nil
  show ?case unfolding for_each.simps by (rule keeps_return [OF assms(1)])
next
  case (Cons x xs)
  show ?case unfolding for_each.simps
    by (rule keeps_bnd [OF assms(2)]) (rule assms(3), rule Cons)
qed

lemma keeps_collect:
  assumes "reflp R" "transp R" and "\<And>x. keeps R (f x)"
  shows "keeps R (collect f xs)"
proof (induction xs)
  case Nil
  show ?case unfolding collect.simps by (rule keeps_return [OF assms(1)])
next
  case (Cons x xs)
  show ?case unfolding collect.simps
    by (intro keeps_bnd [OF assms(2)] assms(3) Cons keeps_return [OF assms(1)])
qed

lemma only_reads_api_read: "read_only c \<Longrightarrow> keeps only_reads (api_read c f)"
  by (auto simp: keeps_def only_reads_def api_read_def api_def Let_def split: option.splits)

lemma same_registry_api: "keeps same_registry (api c f)"
  by (auto simp: keeps_def same_registry_def api_def Let_def split: option.splits prod.splits)

lemma same_registry_api_read: "keeps same_registry (api_read c f)"
  by (simp add: api_read_def same_registry_api)

lemmas only_reads_rules =
  keeps_return [OF only_reads_reflp]
  keeps_throw [OF only_reads_reflp]
  keeps_lift [OF only_reads_reflp]
  keeps_bnd [OF only_reads_transp]
  keeps_catch [OF only_reads_transp]
  keeps_retry_exc [OF only_reads_transp]
  keeps_retry_res [OF only_reads_transp]
  keeps_for_each [OF only_reads_reflp only_reads_transp]
  keeps_collect [OF only_reads_reflp only_reads_transp]
  only_reads_api_read

lemmas same_registry_rules =
  keeps_return [OF same_registry_reflp]
  keeps_throw [OF same_registry_reflp]
  keeps_lift [OF same_registry_reflp]
  keeps_bnd [OF same_registry_transp]
  keeps_catch [OF same_registry_transp]
  keeps_retry_exc [OF same_registry_transp]
  keeps_retry_res [OF same_registry_transp]
  keeps_for_each [OF same_registry_reflp same_registry_transp]
  keeps_collect [OF same_registry_reflp same_registry_transp]
  same_registry_api same_registry_api_read


lemma IamRole_exists_already_same_registry: "keeps same_registry (IamRole_exists_already nm)"
  unfolding IamRole_exists_already_def get_role_def list_attached_role_policies_def
  by (auto intro!: same_registry_rules split: error.splits option.splits)

lemma Vpc_exists_already_same_registry: "keeps same_registry (Vpc_exists_already a b)"
  unfolding Vpc_exists_already_def describe_vpcs_def describe_tags_def create_tags_def describe_subnets_def
  by (auto intro!: same_registry_rules split: error.splits option.splits list.splits prod.splits)

lemma SecurityGroup_exists_already_same_registry: "keeps same_registry (SecurityGroup_exists_already a b c)"
  unfolding SecurityGroup_exists_already_def describe_security_groups_ids_def describe_security_groups_name_vpc_def
  by (auto intro!: same_registry_rules split: error.splits option.splits list.splits prod.splits)

lemma SecurityGroup_exists_already_only_reads: "keeps only_reads (SecurityGroup_exists_already a b c)"
  unfolding SecurityGroup_exists_already_def describe_security_groups_ids_def describe_security_groups_name_vpc_def
  by (auto intro!: only_reads_rules split: error.splits option.splits list.splits prod.splits)

section \<open>Construction with an identifier and creation parameters\<close>




section \<open>The vpc reference of a security group\<close>

lemma SecurityGroup_exists_already_by_id:
  assumes "truthy sgid" and "SecurityGroup_exists_already sgid nm vid w = (Inr (Some r), w1)"
  shows "\<exists>g gs. filter (\<lambda>g. GroupId g = the sgid) (security_groups (remote w)) = g # gs
           \<and> r = \<lparr>r_sg_name = GroupName g, r_sg_vpc_id = sg_VpcId g,
                   r_description = sg_Description g, r_security_group_id = GroupId g\<rparr>"
  using assms
  by (auto simp: SecurityGroup_exists_already_def describe_security_groups_ids_def api_read_def
        api_def Let_def bnd_apply catch_apply return_apply throw_apply
      split: if_splits option.splits list.splits prod.splits sum.splits error.splits)

text \<open>
  Claim C10. A \<open>SecurityGroup\<close> constructed with a (truthy) \<open>security_group_id\<close> has
  \<open>vpc = None\<close>, and its \<open>security_group_id\<close> and \<open>vpc_id\<close> are those of the remote group
  with that id. Only a freshly created group can carry a \<open>Vpc\<close> object: every instance
  that is not freshly created (\<open>pre_existing\<close>) has \<open>vpc = None\<close>.
\<close>

theorem adopted_security_group_has_no_vpc_object:
  "(SecurityGroup_init security_group_id_arg name_arg vpc_arg description_arg w = (Inr sg, w')
      \<and> truthy security_group_id_arg
    \<longrightarrow> vpc sg = None \<and> sg_pre_existing sg
        \<and> (\<exists>g gs. filter (\<lambda>g. GroupId g = the security_group_id_arg)
                     (security_groups (remote w)) = g # gs
                  \<and> security_group_id sg = GroupId g \<and> sg_vpc_id sg = sg_VpcId g))
   \<and> (SecurityGroup_init security_group_id_arg name_arg vpc_arg description_arg w = (Inr sg, w')
        \<and> sg_pre_existing sg
      \<longrightarrow> vpc sg = None)"
proof (rule conjI; rule impI)
  assume a: "SecurityGroup_init security_group_id_arg name_arg vpc_arg description_arg w = (Inr sg, w')
      \<and> truthy security_group_id_arg"
  then obtain r w1 where
    ex: "SecurityGroup_exists_already security_group_id_arg name_arg
           (case vpc_arg of VpcObj v \<Rightarrow> Some (vpc_id v) | _ \<Rightarrow> None) w = (Inr (Some r), w1)"
    and sg: "sg = \<lparr>name = r_sg_name r, clobbered = False, sg_pre_existing = True,
                    vpc = None, sg_vpc_id = r_sg_vpc_id r, description = r_description r,
                    security_group_id = r_security_group_id r\<rparr>"
    by (auto simp: SecurityGroup_init_def bnd_apply throw_apply return_apply add_resource_def
          split: if_splits prod.splits sum.splits option.splits)
  from SecurityGroup_exists_already_by_id [OF _ ex] a sg
  show "vpc sg = None \<and> sg_pre_existing sg
        \<and> (\<exists>g gs. filter (\<lambda>g. GroupId g = the security_group_id_arg)
                     (security_groups (remote w)) = g # gs
                  \<and> security_group_id sg = GroupId g \<and> sg_vpc_id sg = sg_VpcId g)"
    by auto
next
  assume "SecurityGroup_init security_group_id_arg name_arg vpc_arg description_arg w = (Inr sg, w')
        \<and> sg_pre_existing sg"
  then show "vpc sg = None"
    by (auto simp: SecurityGroup_init_def bnd_apply throw_apply return_apply add_resource_def
          split: if_splits prod.splits sum.splits option.splits vpc_arg.splits)
qed

theorem adopted_security_group_has_no_vpc_object_witness:
  "fst (SecurityGroup_init (Some ''sg-1'') None VpcNone None demo_world)
     = Inr \<lparr>name = ''web'', clobbered = False, sg_pre_existing = True, vpc = None,
            sg_vpc_id = ''vpc-1'', description = ''web servers'', security_group_id = ''sg-1''\<rparr>
   \<and> vpc \<lparr>name = ''web'', clobbered = False, sg_pre_existing = True, vpc = None,
            sg_vpc_id = ''vpc-1'', description = ''web servers'', security_group_id = ''sg-1''\<rparr> = None"
proof -
  obtain sg w' where run: "SecurityGroup_init (Some ''sg-1'') None VpcNone None demo_world = (Inr sg, w')"
    and sg: "sg = \<lparr>name = ''web'', clobbered = False, sg_pre_existing = True, vpc = None,
            sg_vpc_id = ''vpc-1'', description = ''web servers'', security_group_id = ''sg-1''\<rparr>"
    by (simp add: run_defs demo_defs)
  have "truthy (Some ''sg-1'')" by (simp add: truthy_def)
  with adopted_security_group_has_no_vpc_object
         [of "Some ''sg-1''" None VpcNone None demo_world sg w'] run sg
  show ?thesis by simp
qed

section \<open>A conflict leaves the registry alone\<close>

text \<open>
  Claim C9. When the resolver finds an existing resource and the caller supplied creation
  parameters as well, the constructor fails with \<open>ResourceExistsException\<close> carrying the
  discovered identifier, and the registry of the world it leaves is the registry it started
  with. For a \<open>Vpc\<close> the parameters are \<open>ipv4_cidr\<close> and \<open>instance_tenancy\<close> beside the
  name; for a \<open>SecurityGroup\<close> the name and the \<open>Vpc\<close>; for an \<open>IamRole\<close> any of
  description, service, policies and the instance-profile flag.
\<close>

theorem conflict_leaves_registry_unchanged:
  "(Vpc_exists_already vpc_id_arg name_arg w = (Inr (Some r), w1)
      \<and> \<not> truthy vpc_id_arg \<and> truthy name_arg
      \<and> (ipv4_cidr_arg \<noteq> None \<or> truthy instance_tenancy_arg)
    \<longrightarrow> Vpc_init vpc_id_arg name_arg ipv4_cidr_arg instance_tenancy_arg w
          = (Inl (ResourceExistsException (r_vpc_id r)), w1)
        \<and> registry w1 = registry w)
   \<and> (SecurityGroup_exists_already security_group_id_arg sg_name_arg (Some (vpc_id v)) w
          = (Inr (Some g), w2)
        \<and> \<not> truthy security_group_id_arg \<and> truthy sg_name_arg
      \<longrightarrow> SecurityGroup_init security_group_id_arg sg_name_arg (VpcObj v) description_arg w
            = (Inl (ResourceExistsException (r_security_group_id g)), w2)
          \<and> registry w2 = registry w)
   \<and> (IamRole_exists_already role_name w = (Inr (Some ro), w3)
        \<and> (truthy role_description_arg \<or> py_truthy policies_arg
             \<or> py_truthy add_instance_profile_arg \<or> truthy service_arg)
      \<longrightarrow> IamRole_init role_name role_description_arg service_arg policies_arg
              add_instance_profile_arg w = (Inl (ResourceExistsException role_name), w3)
          \<and> registry w3 = registry w)"
proof (intro conjI impI)
  assume a: "Vpc_exists_already vpc_id_arg name_arg w = (Inr (Some r), w1)
      \<and> \<not> truthy vpc_id_arg \<and> truthy name_arg
      \<and> (ipv4_cidr_arg \<noteq> None \<or> truthy instance_tenancy_arg)"
  then show "Vpc_init vpc_id_arg name_arg ipv4_cidr_arg instance_tenancy_arg w
          = (Inl (ResourceExistsException (r_vpc_id r)), w1)"
    by (auto simp: Vpc_init_def bnd_apply throw_apply)
  from a keepsD [OF Vpc_exists_already_same_registry] show "registry w1 = registry w"
    unfolding same_registry_def by blast
next
  assume a: "SecurityGroup_exists_already security_group_id_arg sg_name_arg (Some (vpc_id v)) w
          = (Inr (Some g), w2)
        \<and> \<not> truthy security_group_id_arg \<and> truthy sg_name_arg"
  then show "SecurityGroup_init security_group_id_arg sg_name_arg (VpcObj v) description_arg w
            = (Inl (ResourceExistsException (r_security_group_id g)), w2)"
    by (auto simp: SecurityGroup_init_def bnd_apply throw_apply)
  from a keepsD [OF SecurityGroup_exists_already_same_registry] show "registry w2 = registry w"
    unfolding same_registry_def by blast
next
  assume a: "IamRole_exists_already role_name w = (Inr (Some ro), w3)
        \<and> (truthy role_description_arg \<or> py_truthy policies_arg
             \<or> py_truthy add_instance_profile_arg \<or> truthy service_arg)"
  then show "IamRole_init role_name role_description_arg service_arg policies_arg
              add_instance_profile_arg w = (Inl (ResourceExistsException role_name), w3)"
    by (simp add: IamRole_init_def bnd_apply throw_apply)
  from a keepsD [OF IamRole_exists_already_same_registry] show "registry w3 = registry w"
    unfolding same_registry_def by blast
qed

theorem conflict_leaves_registry_unchanged_witness:
  "fst (Vpc_init None (Some ''net2'') None (Some ''dedicated'') demo_world)
     = Inl (ResourceExistsException ''vpc-2'')
   \<and> registry (snd (Vpc_init None (Some ''net2'') None (Some ''dedicated'') demo_world))
     = registry demo_world
   \<and> fst (SecurityGroup_init None (Some ''web'') (VpcObj demo_vpc1) (Some ''other'') demo_world)
     = Inl (ResourceExistsException ''sg-1'')
   \<and> registry (snd (SecurityGroup_init None (Some ''web'') (VpcObj demo_vpc1) (Some ''other'') demo_world))
     = registry demo_world
   \<and> fst (IamRole_init ''r1'' None (Some ''ec2'') (PySeq []) (PyBool False) demo_world)
     = Inl (ResourceExistsException ''r1'')
   \<and> registry (snd (IamRole_init ''r1'' None (Some ''ec2'') (PySeq []) (PyBool False) demo_world))
     = registry demo_world"
proof -
  obtain r w1 where e1: "Vpc_exists_already None (Some ''net2'') demo_world = (Inr (Some r), w1)"
    and r: "r_vpc_id r = ''vpc-2''"
    by (simp add: run_defs demo_defs)
  obtain g w2 where e2: "SecurityGroup_exists_already None (Some ''web'') (Some (vpc_id demo_vpc1)) demo_world
       = (Inr (Some g), w2)" and g: "r_security_group_id g = ''sg-1''"
    by (simp add: run_defs demo_defs demo_vpc1_def)
  obtain ro w3 where e3: "IamRole_exists_already ''r1'' demo_world = (Inr (Some ro), w3)"
    by (simp add: run_defs demo_defs)
  show ?thesis
    using conflict_leaves_registry_unchanged
      [of None "Some ''net2''" demo_world r w1 None "Some ''dedicated''"
          None "Some ''web''" demo_vpc1 g w2 "Some ''other''" "''r1''" ro w3
          None "PySeq []" "PyBool False" "Some ''ec2''"] e1 e2 e3 r g
    by (simp add: truthy_def)
qed

section \<open>Adoption followed by destruction\<close>

lemma Vpc_exists_already_by_id:
  assumes "vid \<noteq> []" and "Vpc_exists_already (Some vid) nm w = (Inr (Some r), w1)"
  shows "r_vpc_id r = vid"
  using assms
  by (auto simp: Vpc_exists_already_def describe_vpcs_def api_read_def
        api_def Let_def bnd_apply catch_apply return_apply throw_apply truthy_def
        filter_eq_Cons_iff
      split: if_splits option.splits list.splits prod.splits sum.splits error.splits)

lemma Vpc_clobber_registry:
  "Vpc_clobber v w1 = (Inr v', w2) \<Longrightarrow> registry w2 ''vpc'' (vpc_id v) = None \<and> v' = v"
  by (auto simp: Vpc_clobber_def catch_apply bnd_apply throw_apply return_apply remove_resource_def
      split: prod.splits sum.splits error.splits if_splits)

lemma SecurityGroup_clobber_registry:
  "SecurityGroup_clobber g w1 = (Inr g', w2)
   \<Longrightarrow> registry w2 ''security-groups'' (security_group_id g) = None \<and> g' = g"
  by (auto simp: SecurityGroup_clobber_def bnd_apply return_apply remove_resource_def
      split: prod.splits sum.splits)

lemma IamRole_clobber_registry:
  "IamRole_clobber r w1 = (Inr r', w2) \<Longrightarrow> \<not> clobbered r
   \<Longrightarrow> registry w2 (section_name r) (name r) = None \<and> r' = r\<lparr>clobbered := True\<rparr>"
  by (auto simp: IamRole_clobber_def bnd_apply return_apply remove_resource_def
      split: prod.splits sum.splits)

text \<open>
  Claim C8. Adopting an existing resource by its identifier (a Role by its name) puts one
  entry for it into the registry, under the resource's id (for a Role its name); when
  \<open>clobber\<close> on the adopted instance then succeeds, the registry holds no entry for that id.
\<close>

theorem adopt_then_destroy_leaves_no_registry_entry:
  "(Vpc_init (Some vid) None None None w = (Inr v, w1) \<and> vid \<noteq> []
      \<and> Vpc_clobber v w1 = (Inr v', w2)
    \<longrightarrow> vpc_id v = vid \<and> registry w1 ''vpc'' vid = Some (name v)
        \<and> registry w2 ''vpc'' vid = None)
   \<and> (SecurityGroup_init (Some gid) None VpcNone None w = (Inr g, w3) \<and> gid \<noteq> []
        \<and> SecurityGroup_clobber g w3 = (Inr g', w4)
      \<longrightarrow> security_group_id g = gid \<and> registry w3 ''security-groups'' gid = Some (name g)
          \<and> registry w4 ''security-groups'' gid = None)
   \<and> (IamRole_init role_name None None policies_arg add_instance_profile_arg w = (Inr ro, w5)
        \<and> role_pre_existing ro \<and> IamRole_clobber ro w5 = (Inr ro', w6)
      \<longrightarrow> name ro = role_name \<and> registry w5 (section_name ro) role_name = Some (arn ro)
          \<and> registry w6 (section_name ro) role_name = None)"
proof (intro conjI; rule impI)
  assume a: "Vpc_init (Some vid) None None None w = (Inr v, w1) \<and> vid \<noteq> []
      \<and> Vpc_clobber v w1 = (Inr v', w2)"
  then obtain r wa where ex: "Vpc_exists_already (Some vid) None w = (Inr (Some r), wa)"
    and v: "vpc_id v = r_vpc_id r" and reg: "registry w1 ''vpc'' (r_vpc_id r) = Some (name v)"
    by (auto simp: Vpc_init_def bnd_apply throw_apply return_apply add_resource_def truthy_def
          split: if_splits prod.splits sum.splits option.splits)
  from Vpc_exists_already_by_id [OF _ ex] a have "r_vpc_id r = vid" by simp
  with v reg Vpc_clobber_registry [of v w1 v' w2] a
  show "vpc_id v = vid \<and> registry w1 ''vpc'' vid = Some (name v)
        \<and> registry w2 ''vpc'' vid = None"
    by simp
next
  assume a: "SecurityGroup_init (Some gid) None VpcNone None w = (Inr g, w3) \<and> gid \<noteq> []
        \<and> SecurityGroup_clobber g w3 = (Inr g', w4)"
  then obtain r wa where
    ex: "SecurityGroup_exists_already (Some gid) None None w = (Inr (Some r), wa)"
    and g: "security_group_id g = r_security_group_id r"
    and reg: "registry w3 ''security-groups'' (r_security_group_id r) = Some (name g)"
    by (auto simp: SecurityGroup_init_def bnd_apply throw_apply return_apply add_resource_def
          truthy_def split: if_splits prod.splits sum.splits option.splits)
  have "truthy (Some gid)" using a by (simp add: truthy_def)
  from SecurityGroup_exists_already_by_id [OF this ex] have "r_security_group_id r = gid"
    by (auto simp: filter_eq_Cons_iff)
  with g reg SecurityGroup_clobber_registry [of g w3 g' w4] a
  show "security_group_id g = gid \<and> registry w3 ''security-groups'' gid = Some (name g)
          \<and> registry w4 ''security-groups'' gid = None"
    by simp
next
  assume a: "IamRole_init role_name None None policies_arg add_instance_profile_arg w = (Inr ro, w5)
        \<and> role_pre_existing ro \<and> IamRole_clobber ro w5 = (Inr ro', w6)"
  then have ro: "name ro = role_name" "\<not> clobbered ro"
      "registry w5 (section_name ro) role_name = Some (arn ro)"
    by (auto simp: IamRole_init_def bnd_apply throw_apply return_apply add_resource_def
          split: if_splits prod.splits sum.splits option.splits list.splits pyval.splits)
  with IamRole_clobber_registry [of ro w5 ro' w6] a
  show "name ro = role_name \<and> registry w5 (section_name ro) role_name = Some (arn ro)
          \<and> registry w6 (section_name ro) role_name = None"
    by simp
qed

lemma vpc2_adopted_run:
  "Vpc_init (Some ''vpc-2'') None None None demo_world = (Inr demo_vpc2, vpc2_adopted)"
  by (simp add: vpc2_adopted_def run_defs demo_defs)

lemma sg1_adopted_run:
  "SecurityGroup_init (Some ''sg-1'') None VpcNone None demo_world = (Inr demo_sg1, sg1_adopted)"
  by (simp add: sg1_adopted_def run_defs demo_defs)

lemma role1_adopted_run:
  "IamRole_init ''r1'' None None (PySeq []) (PyBool False) demo_world = (Inr demo_role1, role1_adopted)"
  by (simp add: role1_adopted_def run_defs demo_defs)

lemma vpc2_clobber_run:
  "Vpc_clobber demo_vpc2 vpc2_adopted = (Inr demo_vpc2, snd (Vpc_clobber demo_vpc2 vpc2_adopted))"
  by (simp add: vpc2_adopted_def run_defs demo_defs)

lemma sg1_clobber_run:
  "SecurityGroup_clobber demo_sg1 sg1_adopted
     = (Inr demo_sg1, snd (SecurityGroup_clobber demo_sg1 sg1_adopted))"
  by (simp add: sg1_adopted_def run_defs demo_defs)

lemma role1_clobber_run:
  "IamRole_clobber demo_role1 role1_adopted
     = (Inr (demo_role1\<lparr>clobbered := True\<rparr>), snd (IamRole_clobber demo_role1 role1_adopted))"
  by (simp add: role1_adopted_def run_defs demo_defs)

theorem adopt_then_destroy_leaves_no_registry_entry_witness:
  "registry vpc2_adopted ''vpc'' ''vpc-2'' = Some ''net2''
   \<and> registry (snd (Vpc_clobber demo_vpc2 vpc2_adopted)) ''vpc'' ''vpc-2'' = None
   \<and> registry sg1_adopted ''security-groups'' ''sg-1'' = Some ''web''
   \<and> registry (snd (SecurityGroup_clobber demo_sg1 sg1_adopted)) ''security-groups'' ''sg-1'' = None
   \<and> registry role1_adopted ''roles'' ''r1'' = Some ''arn:r1''
   \<and> registry (snd (IamRole_clobber demo_role1 role1_adopted)) ''roles'' ''r1'' = None"
  using adopt_then_destroy_leaves_no_registry_entry
    [of "''vpc-2''" demo_world demo_vpc2 vpc2_adopted demo_vpc2
        "snd (Vpc_clobber demo_vpc2 vpc2_adopted)"
        "''sg-1''" demo_sg1 sg1_adopted demo_sg1
        "snd (SecurityGroup_clobber demo_sg1 sg1_adopted)"
        "''r1''" "PySeq []" "PyBool False" demo_role1 role1_adopted
        "demo_role1\<lparr>clobbered := True\<rparr>" "snd (IamRole_clobber demo_role1 role1_adopted)"]
    vpc2_adopted_run sg1_adopted_run role1_adopted_run
    vpc2_clobber_run sg1_clobber_run role1_clobber_run
  by (simp add: demo_vpc2_def demo_sg1_def demo_role1_def)

section \<open>Destroying twice\<close>

text \<open>
  Claim C4 on the code. \<open>IamRole.clobber\<close> returns at once on a clobbered instance and sets
  the flag on success; \<open>Vpc.clobber\<close> and \<open>SecurityGroup.clobber\<close> do neither. In the
  example world, after the adopted network \<open>vpc-2\<close> (the adopted group \<open>sg-1\<close>) has been
  destroyed successfully its \<open>clobbered\<close> flag is still false, and a second \<open>clobber\<close> issues
  remote calls again and fails with the remote's not-found error.
\<close>

theorem second_destroy_of_network_calls_the_remote:
  "fst (Vpc_clobber demo_vpc2 vpc2_adopted) = Inr demo_vpc2
   \<and> \<not> clobbered demo_vpc2
   \<and> fst (Vpc_clobber demo_vpc2 (snd (Vpc_clobber demo_vpc2 vpc2_adopted)))
       = Inl (ClientError ''InvalidVpcID.NotFound'')
   \<and> calls (snd (Vpc_clobber demo_vpc2 (snd (Vpc_clobber demo_vpc2 vpc2_adopted))))
       = calls (snd (Vpc_clobber demo_vpc2 vpc2_adopted)) @ [DeleteVpc]
   \<and> fst (SecurityGroup_clobber demo_sg1 sg1_adopted) = Inr demo_sg1
   \<and> \<not> clobbered demo_sg1
   \<and> fst (SecurityGroup_clobber demo_sg1 (snd (SecurityGroup_clobber demo_sg1 sg1_adopted)))
       = Inl (ClientError ''InvalidGroup.NotFound'')
   \<and> calls (snd (SecurityGroup_clobber demo_sg1 (snd (SecurityGroup_clobber demo_sg1 sg1_adopted))))
       = calls (snd (SecurityGroup_clobber demo_sg1 sg1_adopted))
         @ [DescribeInstances, DescribeComputeEnvironments, DeleteSecurityGroup]"
  by (simp add: vpc2_adopted_def sg1_adopted_def run_defs demo_defs)

section \<open>The policy check of the Role constructor\<close>

text \<open>
  Claim C3 on the code. The constructor compares the requested policies with the catalog by
  Python's proper-subset test. In the example world the catalog holds the policies \<open>P\<close> and
  \<open>Q\<close> (on two pages): requesting both, all of which exist remotely, fails with
  \<open>ValueError\<close> before \<open>create_role\<close> is called, while requesting \<open>P\<close> alone creates the role.
\<close>

theorem policy_check_rejects_the_whole_catalog:
  "map PolicyName (concat (policy_pages (remote demo_world))) = [''P'', ''Q'']
   \<and> fst (IamRole_init ''r2'' None (Some ''ec2'') (PySeq [PyStr ''P'', PyStr ''Q'']) (PyBool False)
           demo_world) = Inl ValueError
   \<and> calls (snd (IamRole_init ''r2'' None (Some ''ec2'') (PySeq [PyStr ''P'', PyStr ''Q''])
                  (PyBool False) demo_world))
       = [GetRole, GetRole, ListPolicies, ListPolicies]
   \<and> fst (IamRole_init ''r2'' None (Some ''ec2'') (PySeq [PyStr ''P'']) (PyBool False) demo_world)
       = Inr \<lparr>name = ''r2'', clobbered = False, arn = ''arn:aws:iam::role/r2'', region = ''global'',
              role_pre_existing = False, role_description = ''This role was generated by cloudknot'',
              service = ''ec2.amazonaws.com'', policies = [''P''],
              role_policy_document =
                \<lparr>Statement = [\<lparr>Effect = ''Allow'', Principal_Service = ''ec2.amazonaws.com'',
                                Action = ''sts:AssumeRole''\<rparr>]\<rparr>,
              section_name = ''roles''\<rparr>"
  apply (simp add: run_defs demo_defs)
  apply auto
  done

section \<open>Subnets of a fresh network\<close>

lemma ceil_log2_bound: "n \<le> 2 ^ ceil_log2 n"
proof (induction n rule: ceil_log2.induct)
  case (1 n)
  show ?case
  proof (cases "n \<le> 1")
    case True
    then show ?thesis by (simp add: ceil_log2.simps)
  next
    case False
    with 1 have "(n + 1) div 2 \<le> 2 ^ ceil_log2 ((n + 1) div 2)" by simp
    then have "n \<le> 2 * 2 ^ ceil_log2 ((n + 1) div 2)" by linarith
    with False show ?thesis by (subst ceil_log2.simps) simp
  qed
qed

lemma ceil_log2_least: "n \<le> 2 ^ d \<Longrightarrow> ceil_log2 n \<le> d"
proof (induction n arbitrary: d rule: ceil_log2.induct)
  case (1 n)
  show ?case
  proof (cases "n \<le> 1")
    case True
    then show ?thesis by (simp add: ceil_log2.simps)
  next
    case False
    with "1.prems" have "d \<noteq> 0" by (cases d) auto
    then obtain d' where d: "d = Suc d'" by (cases d) auto
    with "1.prems" have "(n + 1) div 2 \<le> 2 ^ d'" by simp
    with "1.IH" False have "ceil_log2 ((n + 1) div 2) \<le> d'" by simp
    with False d show ?thesis by (subst ceil_log2.simps) simp
  qed
qed

lemma py_range_multiple:
  assumes "0 < step"
  shows "py_range start (start + k * step) step = map (\<lambda>i. start + i * step) [0 ..< k]"
proof -
  obtain s where s: "step = Suc s" using assms by (cases step) auto
  have "(s + k * Suc s) div Suc s = k + s div Suc s" by (rule div_mult_self1) simp
  then have "(s + k * Suc s) div Suc s = k" by (simp only: div_less lessI add_0_right)
  then have "(k * step + step - 1) div step = k" by (simp add: s add.commute)
  then show ?thesis by (simp add: py_range_def)
qed

lemma subnets_blocks:
  assumes "prefixlen c + d \<le> 32"
  shows "subnets c d = Inr (map (partition_block c d) [0 ..< 2 ^ d])"
proof (cases "prefixlen c = 32")
  case True
  with assms have "d = 0" by simp
  with True show ?thesis by (simp add: subnets_def partition_block_def)
next
  case False
  have split: "(2::nat) ^ (32 - prefixlen c) = 2 ^ d * 2 ^ (32 - (prefixlen c + d))"
    using assms by (simp add: power_add [symmetric])
  then have step: "num_addresses c div 2 ^ d = 2 ^ (32 - (prefixlen c + d))"
    by (simp add: num_addresses_def)
  have "py_range (network_address c) (network_address c + num_addresses c) (num_addresses c div 2 ^ d)
      = map (\<lambda>i. network_address c + i * 2 ^ (32 - (prefixlen c + d))) [0 ..< 2 ^ d]"
    unfolding step using py_range_multiple [of "2 ^ (32 - (prefixlen c + d))" "network_address c" "2 ^ d"]
    by (simp add: num_addresses_def split)
  with False assms show ?thesis
    by (simp add: subnets_def partition_block_def comp_def)
qed

lemma subnet_ipv4_cidrs_blocks:
  assumes "IPv4Network c = Inr c" and "0 < n" and "n \<le> num_addresses c"
  shows "subnet_ipv4_cidrs c n = Inr (map (partition_block c (ceil_log2 n)) [0 ..< n])"
proof -
  have p: "prefixlen c \<le> 32" using assms(1) by (auto simp: IPv4Network_def split: if_splits)
  have "ceil_log2 n \<le> 32 - prefixlen c"
    using assms(3) by (intro ceil_log2_least) (simp add: num_addresses_def)
  with p have fit: "prefixlen c + ceil_log2 n \<le> 32" by simp
  have "take n (map (partition_block c (ceil_log2 n)) [0 ..< 2 ^ ceil_log2 n])
        = map (partition_block c (ceil_log2 n)) [0 ..< n]"
    using ceil_log2_bound [of n] by (simp add: take_map min_def)
  with assms fit show ?thesis
    by (simp add: subnet_ipv4_cidrs_def py_ceil_log2_def subnets_blocks)
qed

lemma subnet_ipv4_cidrs_too_small:
  "num_addresses c < n \<Longrightarrow> subnet_ipv4_cidrs c n = Inl ValueError"
  by (auto simp: subnet_ipv4_cidrs_def IPv4Network_def num_addresses_def)

lemma subnet_ipv4_cidrs_InrD:
  assumes "IPv4Network c = Inr c" and "subnet_ipv4_cidrs c n = Inr cs"
  shows "0 < n \<and> n \<le> num_addresses c"
  using assms
  by (auto simp: subnet_ipv4_cidrs_def py_ceil_log2_def split: if_splits sum.splits)

lemma partition_blocks_disjoint:
  assumes "i < j"
  shows "addresses (partition_block c d i) \<inter> addresses (partition_block c d j) = {}"
proof -
  have "Suc i * 2 ^ (32 - (prefixlen c + d)) \<le> j * 2 ^ (32 - (prefixlen c + d))"
    using assms by (intro mult_le_mono1) simp
  then show ?thesis
    by (auto simp: addresses_def partition_block_def num_addresses_def)
qed

lemma partition_block_nested:
  assumes "prefixlen c + d \<le> 32" and "i < 2 ^ d"
  shows "addresses (partition_block c d i) \<subseteq> addresses c"
proof -
  have "Suc i * 2 ^ (32 - (prefixlen c + d)) \<le> 2 ^ d * 2 ^ (32 - (prefixlen c + d))"
    using assms(2) by (intro mult_le_mono1) simp
  also have "\<dots> = 2 ^ (32 - prefixlen c)"
    using assms(1) by (simp add: power_add [symmetric])
  finally show ?thesis
    by (auto simp: addresses_def partition_block_def num_addresses_def)
qed

lemma same_subnets_reflp: "reflp same_subnets"
  by (simp add: reflp_def same_subnets_def)

lemma same_subnets_transp: "transp same_subnets"
  by (simp add: transp_def same_subnets_def)

lemma same_subnets_api_read: "keeps same_subnets (api_read c f)"
  by (auto simp: keeps_def same_subnets_def api_read_def api_def Let_def split: option.splits)

lemma same_subnets_create_tags: "keeps same_subnets (create_tags rs ts)"
  by (auto simp: keeps_def same_subnets_def create_tags_def api_def Let_def split: option.splits)

lemma same_subnets_create_vpc: "keeps same_subnets (create_vpc c t)"
  by (auto simp: keeps_def same_subnets_def create_vpc_def api_def Let_def
      split: option.splits list.splits)

lemma same_subnets_add_resource: "keeps same_subnets (add_resource s i n)"
  by (simp add: keeps_def same_subnets_def add_resource_def)

lemmas same_subnets_rules =
  keeps_return [OF same_subnets_reflp]
  keeps_throw [OF same_subnets_reflp]
  keeps_lift [OF same_subnets_reflp]
  keeps_bnd [OF same_subnets_transp]
  keeps_catch [OF same_subnets_transp]
  keeps_retry_exc [OF same_subnets_transp]
  same_subnets_api_read same_subnets_create_tags same_subnets_create_vpc
  same_subnets_add_resource

lemma Vpc_exists_already_same_subnets: "keeps same_subnets (Vpc_exists_already a b)"
  unfolding Vpc_exists_already_def describe_vpcs_def describe_tags_def describe_subnets_def
  by (auto intro!: same_subnets_rules split: error.splits option.splits list.splits prod.splits)

lemma Vpc_create_same_subnets: "keeps same_subnets (Vpc_create n c t)"
  unfolding Vpc_create_def wait_vpc_def waiter_def
  by (auto intro!: same_subnets_rules split: error.splits)

lemma create_subnet_InrD:
  assumes "create_subnet zone c vid w = (Inr i, w1)"
  shows "subnet_list (remote w1) = subnet_list (remote w)
           @ [\<lparr>SubnetId = i, sn_VpcId = vid, sn_CidrBlock = c, sn_AvailabilityZone = zone\<rparr>]
         \<and> zones (remote w1) = zones (remote w) \<and> fault (remote w1) = fault (remote w)"
  using assms
  by (auto simp: create_subnet_def api_def Let_def split: option.splits if_splits list.splits)

lemma collect_create_subnet:
  "collect (\<lambda>(zone, c). create_subnet zone c vid) zcs w = (Inr sids, w')
   \<Longrightarrow> length sids = length zcs
     \<and> subnet_list (remote w') = subnet_list (remote w)
         @ map (\<lambda>((z, c), i). \<lparr>SubnetId = i, sn_VpcId = vid, sn_CidrBlock = c,
                                 sn_AvailabilityZone = z\<rparr>) (zip zcs sids)
     \<and> zones (remote w') = zones (remote w) \<and> fault (remote w') = fault (remote w)"
proof (induction zcs arbitrary: w sids w')
  case Nil
  then show ?case by (simp add: return_apply)
next
  case (Cons zc zcs)
  obtain z c where zc: "zc = (z, c)" by (cases zc)
  from Cons.prems obtain y w1 ys where
    first: "create_subnet z c vid w = (Inr y, w1)"
    and rest: "collect (\<lambda>(zone, c). create_subnet zone c vid) zcs w1 = (Inr ys, w')"
    and sids: "sids = y # ys"
    by (auto simp: zc bnd_apply return_apply split: prod.splits sum.splits)
  from Cons.IH [OF rest] create_subnet_InrD [OF first] sids zc
  show ?case by simp
qed

lemma Vpc_add_subnets_InrD:
  assumes "IPv4Network c = Inr c" and "Vpc_add_subnets nm c vid w = (Inr sids, w')"
  shows "0 < length (zones (remote w)) \<and> length (zones (remote w)) \<le> num_addresses c
         \<and> length sids = length (zones (remote w))
         \<and> subnet_list (remote w') = subnet_list (remote w)
             @ map (\<lambda>((z, b), i). \<lparr>SubnetId = i, sn_VpcId = vid, sn_CidrBlock = b,
                                     sn_AvailabilityZone = z\<rparr>)
                 (zip (zip (zones (remote w))
                         (map (partition_block c (ceil_log2 (length (zones (remote w)))))
                            [0 ..< length (zones (remote w))])) sids)"
proof -
  from assms(2) obtain zs wa cidrs wb wc wd u1 u2 where
    z: "describe_availability_zones w = (Inr zs, wa)"
    and cs: "subnet_ipv4_cidrs c (length zs) = Inr cidrs"
    and col: "collect (\<lambda>(zone, subnet_cidr). create_subnet zone subnet_cidr vid) (zip zs cidrs) wa
                = (Inr sids, wb)"
    and wt: "retry_if_exception_type (\<lambda>e. e = WaiterError) 60 300 (wait_subnet_available sids) wb
                = (Inr u1, wc)"
    and tg: "create_tags sids [(''owner'', ''cloudknot''), (''vpc-name'', nm)] wc = (Inr u2, w')"
    by (auto simp: Vpc_add_subnets_def bnd_apply return_apply lift_apply
          split: prod.splits sum.splits)
  from z have zs: "zs = zones (remote w)" and wa: "same_subnets w wa"
    by (auto simp: describe_availability_zones_def api_read_def api_def Let_def same_subnets_def
          split: option.splits)
  from subnet_ipv4_cidrs_InrD [OF assms(1) cs]
  have n: "0 < length zs" "length zs \<le> num_addresses c" by simp_all
  with subnet_ipv4_cidrs_blocks [OF assms(1)] cs
  have cidrs: "cidrs = map (partition_block c (ceil_log2 (length zs))) [0 ..< length zs]" by simp
  have "keeps same_subnets
          (retry_if_exception_type (\<lambda>e. e = WaiterError) 60 300 (wait_subnet_available sids))"
    unfolding wait_subnet_available_def waiter_def
    by (auto intro!: same_subnets_rules split: error.splits)
  then have wcb: "same_subnets wb wc" using wt by (rule keepsD)
  have wdc: "same_subnets wc w'" using same_subnets_create_tags tg by (rule keepsD)
  from collect_create_subnet [OF col] wa wcb wdc n cidrs zs
  show ?thesis by (simp add: same_subnets_def)
qed

lemma Vpc_add_subnets_too_small:
  assumes "fault (remote w) DescribeAvailabilityZones = None"
    and "num_addresses c < length (zones (remote w))"
  shows "Vpc_add_subnets nm c vid w = (Inl ValueError, w\<lparr>calls := calls w @ [DescribeAvailabilityZones]\<rparr>)"
  using assms
  by (simp add: Vpc_add_subnets_def bnd_apply lift_apply describe_availability_zones_def
        api_read_def api_def Let_def subnet_ipv4_cidrs_too_small)

lemma Vpc_init_fresh:
  assumes "Vpc_init vpc_id_arg name_arg ipv4_cidr_arg instance_tenancy_arg w = (Inr v, w')"
    and "\<not> pre_existing v"
  obtains wb where "same_subnets w wb" and "IPv4Network (ipv4_cidr v) = Inr (ipv4_cidr v)"
    and "Vpc_add_subnets (name v) (ipv4_cidr v) (vpc_id v) wb = (Inr (subnet_ids v), w')"
proof -
  from assms obtain wa c ten vid wb sids where
    ex: "Vpc_exists_already vpc_id_arg name_arg w = (Inr None, wa)"
    and c: "(case ipv4_cidr_arg of Some c \<Rightarrow> IPv4Network c
             | None \<Rightarrow> IPv4Network \<lparr>network_address = 167772160, prefixlen = 16\<rparr>) = Inr c"
    and cr: "Vpc_create (the name_arg) c ten wa = (Inr vid, wb)"
    and ad: "Vpc_add_subnets (the name_arg) c vid wb = (Inr sids, w')"
    and v: "v = \<lparr>name = the name_arg, clobbered = False, pre_existing = False,
                  ipv4_cidr = c, instance_tenancy = ten, vpc_id = vid, subnet_ids = sids\<rparr>"
    by (auto simp: Vpc_init_def bnd_apply return_apply throw_apply lift_apply add_resource_def
          split: if_splits prod.splits sum.splits option.splits)
  have "same_subnets w wa" by (rule keepsD [OF Vpc_exists_already_same_subnets ex])
  moreover have "same_subnets wa wb" by (rule keepsD [OF Vpc_create_same_subnets cr])
  ultimately have s: "same_subnets w wb" by (rule transpD [OF same_subnets_transp])
  from c have valid: "IPv4Network c = Inr c"
    by (auto simp: IPv4Network_def split: option.splits if_splits)
  show thesis
    by (rule that [of wb]) (simp_all add: s valid ad v)
qed

lemma created_projections:
  assumes "length zs = length bs" and "length bs = length sids"
  shows "length (map (\<lambda>((z, b), i). \<lparr>SubnetId = i, sn_VpcId = vid, sn_CidrBlock = b,
                                       sn_AvailabilityZone = z\<rparr>) (zip (zip zs bs) sids)) = length zs
    \<and> map SubnetId (map (\<lambda>((z, b), i). \<lparr>SubnetId = i, sn_VpcId = vid, sn_CidrBlock = b,
                                       sn_AvailabilityZone = z\<rparr>) (zip (zip zs bs) sids)) = sids
    \<and> map sn_CidrBlock (map (\<lambda>((z, b), i). \<lparr>SubnetId = i, sn_VpcId = vid, sn_CidrBlock = b,
                                       sn_AvailabilityZone = z\<rparr>) (zip (zip zs bs) sids)) = bs
    \<and> map sn_AvailabilityZone (map (\<lambda>((z, b), i). \<lparr>SubnetId = i, sn_VpcId = vid, sn_CidrBlock = b,
                                       sn_AvailabilityZone = z\<rparr>) (zip (zip zs bs) sids)) = zs
    \<and> map sn_VpcId (map (\<lambda>((z, b), i). \<lparr>SubnetId = i, sn_VpcId = vid, sn_CidrBlock = b,
                                       sn_AvailabilityZone = z\<rparr>) (zip (zip zs bs) sids))
        = replicate (length zs) vid"
  using assms by (induction zs bs sids rule: list_induct3) auto


lemma fresh_network_subnets:
  assumes init: "Vpc_init vpc_id_arg name_arg ipv4_cidr_arg instance_tenancy_arg w = (Inr v, w')"
    and fresh: "\<not> pre_existing v"
  defines "n \<equiv> length (zones (remote w))"
  defines "d \<equiv> ceil_log2 n"
  defines "created \<equiv> drop (length (subnet_list (remote w))) (subnet_list (remote w'))"
  shows "0 < n \<and> n \<le> num_addresses (ipv4_cidr v) \<and> n \<le> 2 ^ d \<and> (\<forall>k. n \<le> 2 ^ k \<longrightarrow> d \<le> k)
        \<and> take (length (subnet_list (remote w))) (subnet_list (remote w')) = subnet_list (remote w)
        \<and> length created = n \<and> map SubnetId created = subnet_ids v
        \<and> map sn_VpcId created = replicate n (vpc_id v)
        \<and> map sn_AvailabilityZone created = zones (remote w)
        \<and> map sn_CidrBlock created = map (partition_block (ipv4_cidr v) d) [0 ..< n]
        \<and> (\<forall>i j. i < j \<and> j < n
              \<longrightarrow> addresses (partition_block (ipv4_cidr v) d i)
                    \<inter> addresses (partition_block (ipv4_cidr v) d j) = {})
        \<and> (\<forall>i. i < n \<longrightarrow> addresses (partition_block (ipv4_cidr v) d i) \<subseteq> addresses (ipv4_cidr v))"
proof -
  obtain wb where wb: "same_subnets w wb"
    and valid: "IPv4Network (ipv4_cidr v) = Inr (ipv4_cidr v)"
    and add: "Vpc_add_subnets (name v) (ipv4_cidr v) (vpc_id v) wb = (Inr (subnet_ids v), w')"
    by (rule Vpc_init_fresh [OF init fresh])
  have zs: "zones (remote wb) = zones (remote w)"
    and sl: "subnet_list (remote wb) = subnet_list (remote w)"
    using wb by (simp_all add: same_subnets_def)
  note r = Vpc_add_subnets_InrD [OF valid add, unfolded zs sl, folded n_def, folded d_def]
  have c1: "0 < n" and c2: "n \<le> num_addresses (ipv4_cidr v)"
    and len: "length (subnet_ids v) = n"
    and new: "subnet_list (remote w') = subnet_list (remote w)
          @ map (\<lambda>((z, b), i). \<lparr>SubnetId = i, sn_VpcId = vpc_id v, sn_CidrBlock = b,
                                  sn_AvailabilityZone = z\<rparr>)
              (zip (zip (zones (remote w)) (map (partition_block (ipv4_cidr v) d) [0 ..< n]))
                 (subnet_ids v))"
    using r by simp_all
  have p: "prefixlen (ipv4_cidr v) \<le> 32"
    using valid by (auto simp: IPv4Network_def split: if_splits)
  have "n \<le> 2 ^ (32 - prefixlen (ipv4_cidr v))" using c2 by (simp add: num_addresses_def)
  then have "d \<le> 32 - prefixlen (ipv4_cidr v)" unfolding d_def by (rule ceil_log2_least)
  with p have fit: "prefixlen (ipv4_cidr v) + d \<le> 32" by simp
  have c3: "n \<le> 2 ^ d" unfolding d_def by (rule ceil_log2_bound)
  have c4: "\<forall>k. n \<le> 2 ^ k \<longrightarrow> d \<le> k" unfolding d_def by (simp add: ceil_log2_least)
  have c5: "take (length (subnet_list (remote w))) (subnet_list (remote w')) = subnet_list (remote w)"
    by (simp add: new)
  have created: "created = map (\<lambda>((z, b), i). \<lparr>SubnetId = i, sn_VpcId = vpc_id v, sn_CidrBlock = b,
                                     sn_AvailabilityZone = z\<rparr>)
                 (zip (zip (zones (remote w)) (map (partition_block (ipv4_cidr v) d) [0 ..< n]))
                    (subnet_ids v))"
    unfolding created_def by (simp add: new)
  have l1: "length (zones (remote w)) = length (map (partition_block (ipv4_cidr v) d) [0 ..< n])"
    by (simp add: n_def)
  have l2: "length (map (partition_block (ipv4_cidr v) d) [0 ..< n]) = length (subnet_ids v)"
    by (simp add: len)
  note proj = created_projections [OF l1 l2, of "vpc_id v", folded created, folded n_def]
  have c6: "length created = n" and c7: "map SubnetId created = subnet_ids v"
    and c8: "map sn_VpcId created = replicate n (vpc_id v)"
    and c9: "map sn_AvailabilityZone created = zones (remote w)"
    and c10: "map sn_CidrBlock created = map (partition_block (ipv4_cidr v) d) [0 ..< n]"
    using proj by simp_all
  have c11: "\<forall>i j. i < j \<and> j < n
              \<longrightarrow> addresses (partition_block (ipv4_cidr v) d i)
                    \<inter> addresses (partition_block (ipv4_cidr v) d j) = {}"
    by (simp add: partition_blocks_disjoint)
  have c12: "\<forall>i. i < n \<longrightarrow> addresses (partition_block (ipv4_cidr v) d i) \<subseteq> addresses (ipv4_cidr v)"
  proof (intro allI impI)
    fix i assume "i < n"
    with c3 have "i < 2 ^ d" by simp
    with fit show "addresses (partition_block (ipv4_cidr v) d i) \<subseteq> addresses (ipv4_cidr v)"
      by (rule partition_block_nested)
  qed
  show ?thesis
    by (intro conjI c1 c2 c3 c4 c5 c6 c7 c8 c9 c10 c11 c12)
qed

text \<open>
  Claim C2. When the constructor creates a network (\<open>pre_existing\<close> false) in a region with
  \<open>n\<close> availability zones, then \<open>n\<close> is positive and at most the number of addresses of
  the network's block, and the subnets it created (those the remote holds beyond the ones
  it held before) are exactly \<open>n\<close>: one per zone, in the zones' order, in this network,
  with the ids the instance records. Their blocks are the first \<open>n\<close> blocks of the partition
  of the network's block with \<open>d = ceil_log2 n\<close> extra prefix bits, where \<open>d\<close> is the least
  number with \<open>n \<le> 2 ^ d\<close>; the blocks are pairwise disjoint and each lies within the
  network's block. And when the block has fewer addresses than there are zones,
  \<open>_add_subnets\<close> fails with \<open>ValueError\<close> right after listing the zones, creating nothing.
  (With no zone at all the constructor fails too: \<open>log2(0)\<close> raises.)
\<close>

theorem fresh_network_gets_one_subnet_per_zone:
  "(Vpc_init vpc_id_arg name_arg ipv4_cidr_arg instance_tenancy_arg w = (Inr v, w')
      \<and> \<not> pre_existing v \<and> n = length (zones (remote w)) \<and> d = ceil_log2 n
      \<and> created = drop (length (subnet_list (remote w))) (subnet_list (remote w'))
    \<longrightarrow> 0 < n \<and> n \<le> num_addresses (ipv4_cidr v) \<and> n \<le> 2 ^ d \<and> (\<forall>k. n \<le> 2 ^ k \<longrightarrow> d \<le> k)
        \<and> take (length (subnet_list (remote w))) (subnet_list (remote w')) = subnet_list (remote w)
        \<and> length created = n \<and> map SubnetId created = subnet_ids v
        \<and> map sn_VpcId created = replicate n (vpc_id v)
        \<and> map sn_AvailabilityZone created = zones (remote w)
        \<and> map sn_CidrBlock created = map (partition_block (ipv4_cidr v) d) [0 ..< n]
        \<and> (\<forall>i j. i < j \<and> j < n
              \<longrightarrow> addresses (partition_block (ipv4_cidr v) d i)
                    \<inter> addresses (partition_block (ipv4_cidr v) d j) = {})
        \<and> (\<forall>i. i < n \<longrightarrow> addresses (partition_block (ipv4_cidr v) d i) \<subseteq> addresses (ipv4_cidr v)))
   \<and> (fault (remote w) DescribeAvailabilityZones = None
        \<and> num_addresses c < length (zones (remote w))
      \<longrightarrow> Vpc_add_subnets nm c vid w
            = (Inl ValueError, w\<lparr>calls := calls w @ [DescribeAvailabilityZones]\<rparr>))"
proof (rule conjI; rule impI; (elim conjE)?)
  assume init: "Vpc_init vpc_id_arg name_arg ipv4_cidr_arg instance_tenancy_arg w = (Inr v, w')"
    and fresh: "\<not> pre_existing v"
    and n: "n = length (zones (remote w))" and d: "d = ceil_log2 n"
    and created: "created = drop (length (subnet_list (remote w))) (subnet_list (remote w'))"
  show "0 < n \<and> n \<le> num_addresses (ipv4_cidr v) \<and> n \<le> 2 ^ d \<and> (\<forall>k. n \<le> 2 ^ k \<longrightarrow> d \<le> k)
        \<and> take (length (subnet_list (remote w))) (subnet_list (remote w')) = subnet_list (remote w)
        \<and> length created = n \<and> map SubnetId created = subnet_ids v
        \<and> map sn_VpcId created = replicate n (vpc_id v)
        \<and> map sn_AvailabilityZone created = zones (remote w)
        \<and> map sn_CidrBlock created = map (partition_block (ipv4_cidr v) d) [0 ..< n]
        \<and> (\<forall>i j. i < j \<and> j < n
              \<longrightarrow> addresses (partition_block (ipv4_cidr v) d i)
                    \<inter> addresses (partition_block (ipv4_cidr v) d j) = {})
        \<and> (\<forall>i. i < n \<longrightarrow> addresses (partition_block (ipv4_cidr v) d i) \<subseteq> addresses (ipv4_cidr v))"
    unfolding created d n by (rule fresh_network_subnets [OF init fresh])
next
  assume "fault (remote w) DescribeAvailabilityZones = None"
    and "num_addresses c < length (zones (remote w))"
  then show "Vpc_add_subnets nm c vid w
            = (Inl ValueError, w\<lparr>calls := calls w @ [DescribeAvailabilityZones]\<rparr>)"
    by (rule Vpc_add_subnets_too_small)
qed

lemma net_created_run:
  "Vpc_init None (Some ''net'') None None demo_world = (Inr demo_fresh_vpc, net_created)"
  by (simp add: net_created_def run_defs demo_defs demo_fresh_vpc_def
        subnet_ipv4_cidrs_def IPv4Network_def num_addresses_def py_ceil_log2_def subnets_def
        py_range_def ceil_log2.simps upt_rec)


theorem fresh_network_gets_one_subnet_per_zone_witness:
  "fst (Vpc_init None (Some ''net'') None None demo_world) = Inr demo_fresh_vpc
   \<and> length (zones (remote demo_world)) = 3 \<and> ceil_log2 3 = 2
   \<and> subnet_list (remote demo_world) = []
   \<and> map SubnetId (subnet_list (remote net_created)) = [''id-2'', ''id-3'', ''id-4'']
   \<and> map sn_CidrBlock (subnet_list (remote net_created))
       = [\<lparr>network_address = 167772160, prefixlen = 18\<rparr>,
          \<lparr>network_address = 167788544, prefixlen = 18\<rparr>,
          \<lparr>network_address = 167804928, prefixlen = 18\<rparr>]
   \<and> Vpc_add_subnets ''net'' \<lparr>network_address = 167772160, prefixlen = 31\<rparr> ''vpc-1'' demo_world
       = (Inl ValueError, demo_world\<lparr>calls := calls demo_world @ [DescribeAvailabilityZones]\<rparr>)"
proof -
  have z: "length (zones (remote demo_world)) = 3" "subnet_list (remote demo_world) = []"
      "fault (remote demo_world) DescribeAvailabilityZones = None"
    by (simp_all add: demo_defs)
  have l: "ceil_log2 3 = 2" by (simp add: ceil_log2.simps)
  have small: "num_addresses \<lparr>network_address = 167772160, prefixlen = 31\<rparr> < 3"
    by (simp add: num_addresses_def)
  have blocks: "map (partition_block (ipv4_cidr demo_fresh_vpc) 2) [0 ..< 3]
       = [\<lparr>network_address = 167772160, prefixlen = 18\<rparr>,
          \<lparr>network_address = 167788544, prefixlen = 18\<rparr>,
          \<lparr>network_address = 167804928, prefixlen = 18\<rparr>]"
    by (simp add: partition_block_def demo_fresh_vpc_def upt_rec)
  have ids: "subnet_ids demo_fresh_vpc = [''id-2'', ''id-3'', ''id-4'']"
      "\<not> pre_existing demo_fresh_vpc"
    by (simp_all add: demo_fresh_vpc_def)
  show ?thesis
    using fresh_network_gets_one_subnet_per_zone
      [of None "Some ''net''" None None demo_world demo_fresh_vpc net_created 3 2
          "subnet_list (remote net_created)" "\<lparr>network_address = 167772160, prefixlen = 31\<rparr>"
          "''net''" "''vpc-1''"]
      net_created_run z l small blocks ids
    by simp
qed

section \<open>Destroying a network that holds a security group\<close>

lemma for_each_delete_subnet:
  assumes "fault (remote w) DeleteSubnet = None" and "distinct sids"
    and "set sids \<subseteq> SubnetId ` set (subnet_list (remote w))"
  obtains w' where "for_each delete_subnet sids w = (Inr (), w')"
    and "remote w' = (remote w)\<lparr>subnet_list :=
           filter (\<lambda>s. SubnetId s \<notin> set sids) (subnet_list (remote w))\<rparr>"
    and "registry w' = registry w"
proof -
  have "\<exists>w'. for_each delete_subnet sids w = (Inr (), w')
          \<and> remote w' = (remote w)\<lparr>subnet_list :=
                filter (\<lambda>s. SubnetId s \<notin> set sids) (subnet_list (remote w))\<rparr>
          \<and> registry w' = registry w"
    using assms
  proof (induction sids arbitrary: w)
    case Nil
    then show ?case by (simp add: return_apply)
  next
    case (Cons x xs)
    define w1 where "w1 = w\<lparr>calls := calls w @ [DeleteSubnet],
        remote := (remote w)\<lparr>subnet_list := filter (\<lambda>s. SubnetId s \<noteq> x) (subnet_list (remote w))\<rparr>\<rparr>"
    have del: "delete_subnet x w = (Inr (), w1)"
      using Cons.prems by (auto simp: delete_subnet_def api_def Let_def w1_def)
    have f1: "fault (remote w1) DeleteSubnet = None" using Cons.prems by (simp add: w1_def)
    have d1: "distinct xs" using Cons.prems by simp
    have s1: "set xs \<subseteq> SubnetId ` set (subnet_list (remote w1))"
    proof
      fix y assume y: "y \<in> set xs"
      with Cons.prems obtain s where s: "s \<in> set (subnet_list (remote w))" "y = SubnetId s"
        by auto
      from y Cons.prems have "y \<noteq> x" by auto
      with s show "y \<in> SubnetId ` set (subnet_list (remote w1))"
        by (auto simp: w1_def)
    qed
    from Cons.IH [OF f1 d1 s1] obtain w' where
      r: "for_each delete_subnet xs w1 = (Inr (), w')"
      and rem: "remote w' = (remote w1)\<lparr>subnet_list :=
                filter (\<lambda>s. SubnetId s \<notin> set xs) (subnet_list (remote w1))\<rparr>"
      and reg: "registry w' = registry w1"
      by (elim exE conjE)
    have "for_each delete_subnet (x # xs) w = (Inr (), w')"
      by (simp add: bnd_apply del r)
    moreover have "remote w' = (remote w)\<lparr>subnet_list :=
                filter (\<lambda>s. SubnetId s \<notin> set (x # xs)) (subnet_list (remote w))\<rparr>"
      unfolding rem by (simp add: w1_def conj_commute)
    moreover have "registry w' = registry w" unfolding reg by (simp add: w1_def)
    ultimately show ?case by (intro exI conjI)
  qed
  then show thesis by (elim exE conjE) (rule that)
qed

lemma Vpc_clobber_blocked:
  assumes nofault: "fault (remote w) = (\<lambda>_. None)"
    and vpc: "vpc_id v \<in> VpcId ` set (vpcs (remote w))"
    and subs: "subnet_ids v = map SubnetId (filter (\<lambda>s. sn_VpcId s = vpc_id v) (subnet_list (remote w)))"
    and dist: "distinct (map SubnetId (subnet_list (remote w)))"
    and g: "g \<in> set (security_groups (remote w))" "sg_VpcId g = vpc_id v"
  shows "fst (Vpc_clobber v w)
           = Inl (CannotDeleteResourceException
                    (map GroupId (filter (\<lambda>g. sg_VpcId g = vpc_id v) (security_groups (remote w)))))
         \<and> registry (snd (Vpc_clobber v w)) = registry w
         \<and> remote (snd (Vpc_clobber v w)) = (remote w)\<lparr>subnet_list :=
              filter (\<lambda>s. SubnetId s \<notin> set (subnet_ids v)) (subnet_list (remote w))\<rparr>"
proof -
  have f: "fault (remote w) DeleteSubnet = None" by (simp add: nofault)
  have d: "distinct (subnet_ids v)" unfolding subs using dist by (rule distinct_map_filter)
  have s: "set (subnet_ids v) \<subseteq> SubnetId ` set (subnet_list (remote w))"
    unfolding subs by auto
  obtain w1 where r1: "for_each delete_subnet (subnet_ids v) w = (Inr (), w1)"
    and rem1: "remote w1 = (remote w)\<lparr>subnet_list :=
           filter (\<lambda>s. SubnetId s \<notin> set (subnet_ids v)) (subnet_list (remote w))\<rparr>"
    and reg1: "registry w1 = registry w"
    by (rule for_each_delete_subnet [OF f d s])
  have ne: "filter (\<lambda>g. sg_VpcId g = vpc_id v) (security_groups (remote w)) \<noteq> []"
    using g by (auto simp: filter_empty_conv)
  have r2: "delete_vpc (vpc_id v) w1
      = (Inl (ClientError ''DependencyViolation''), w1\<lparr>calls := calls w1 @ [DeleteVpc]\<rparr>)"
    using vpc ne by (simp add: delete_vpc_def api_def Let_def rem1 nofault)
  have r3: "describe_security_groups_vpc (vpc_id v) (w1\<lparr>calls := calls w1 @ [DeleteVpc]\<rparr>)
      = (Inr (filter (\<lambda>g. sg_VpcId g = vpc_id v) (security_groups (remote w))),
         w1\<lparr>calls := calls w1 @ [DeleteVpc, DescribeSecurityGroups]\<rparr>)"
    by (simp add: describe_security_groups_vpc_def api_read_def api_def Let_def rem1 nofault)
  have "Vpc_clobber v w
      = (Inl (CannotDeleteResourceException
                (map GroupId (filter (\<lambda>g. sg_VpcId g = vpc_id v) (security_groups (remote w))))),
         w1\<lparr>calls := calls w1 @ [DeleteVpc, DescribeSecurityGroups]\<rparr>)"
    by (simp add: Vpc_clobber_def catch_apply bnd_apply throw_apply r1 r2 r3)
  then show ?thesis by (simp add: reg1 rem1)
qed

lemma Vpc_clobber_succeeds:
  assumes nofault: "fault (remote w) = (\<lambda>_. None)"
    and vpc: "vpc_id v \<in> VpcId ` set (vpcs (remote w))"
    and subs: "subnet_ids v = map SubnetId (filter (\<lambda>s. sn_VpcId s = vpc_id v) (subnet_list (remote w)))"
    and dist: "distinct (map SubnetId (subnet_list (remote w)))"
    and nosg: "filter (\<lambda>g. sg_VpcId g = vpc_id v) (security_groups (remote w)) = []"
  shows "fst (Vpc_clobber v w) = Inr v
         \<and> vpcs (remote (snd (Vpc_clobber v w)))
             = filter (\<lambda>x. VpcId x \<noteq> vpc_id v) (vpcs (remote w))
         \<and> subnet_list (remote (snd (Vpc_clobber v w)))
             = filter (\<lambda>s. SubnetId s \<notin> set (subnet_ids v)) (subnet_list (remote w))
         \<and> security_groups (remote (snd (Vpc_clobber v w))) = security_groups (remote w)
         \<and> registry (snd (Vpc_clobber v w))
             = (registry w)(''vpc'' := (registry w ''vpc'')(vpc_id v := None))"
proof -
  have f: "fault (remote w) DeleteSubnet = None" by (simp add: nofault)
  have d: "distinct (subnet_ids v)" unfolding subs using dist by (rule distinct_map_filter)
  have s: "set (subnet_ids v) \<subseteq> SubnetId ` set (subnet_list (remote w))"
    unfolding subs by auto
  obtain w1 where r1: "for_each delete_subnet (subnet_ids v) w = (Inr (), w1)"
    and rem1: "remote w1 = (remote w)\<lparr>subnet_list :=
           filter (\<lambda>s. SubnetId s \<notin> set (subnet_ids v)) (subnet_list (remote w))\<rparr>"
    and reg1: "registry w1 = registry w"
    by (rule for_each_delete_subnet [OF f d s])
  have nosub: "filter (\<lambda>s. sn_VpcId s = vpc_id v)
      (filter (\<lambda>s. SubnetId s \<notin> set (subnet_ids v)) (subnet_list (remote w))) = []"
    unfolding subs by (auto simp: filter_empty_conv)
  have r2: "delete_vpc (vpc_id v) w1
      = (Inr (), w1\<lparr>calls := calls w1 @ [DeleteVpc],
            remote := (remote w1)\<lparr>vpcs := filter (\<lambda>x. VpcId x \<noteq> vpc_id v) (vpcs (remote w1))\<rparr>\<rparr>)"
    using vpc nosg nosub by (simp add: delete_vpc_def api_def Let_def rem1 nofault)
  show ?thesis
    by (simp add: Vpc_clobber_def catch_apply bnd_apply return_apply remove_resource_def r1 r2
          rem1 reg1)
qed

lemma Vpc_clobber_stale:
  assumes "fault (remote w) DeleteSubnet = None"
    and "subnet_ids v = sid # sids"
    and "sid \<notin> SubnetId ` set (subnet_list (remote w))"
  shows "Vpc_clobber v w
           = (Inl (ClientError ''InvalidSubnetID.NotFound''), w\<lparr>calls := calls w @ [DeleteSubnet]\<rparr>)"
  using assms
  by (simp add: Vpc_clobber_def catch_apply bnd_apply throw_apply delete_subnet_def api_def Let_def)

lemma reservations_deps:
  "concat (map (\<lambda>r. map InstanceId (filter P r)) (map (\<lambda>i. [i]) xs)) = map InstanceId (filter P xs)"
  by (induction xs) auto

lemma reservations_deps_comp:
  "concat (map ((\<lambda>r. map InstanceId (filter P r)) \<circ> (\<lambda>i. [i])) xs) = map InstanceId (filter P xs)"
  by (induction xs) auto

lemma SecurityGroup_clobber_succeeds:
  assumes nofault: "fault (remote w) = (\<lambda>_. None)"
    and g: "security_group_id sg \<in> GroupId ` set (security_groups (remote w))"
    and noinst: "filter (\<lambda>i. security_group_id sg \<in> set (in_SecurityGroups i)) (instances (remote w)) = []"
    and noce: "filter (\<lambda>ce. security_group_id sg \<in> set (securityGroupIds ce))
                 (compute_environments (remote w)) = []"
  obtains w' where "SecurityGroup_clobber sg w = (Inr sg, w')"
    and "remote w' = (remote w)\<lparr>security_groups :=
           filter (\<lambda>x. GroupId x \<noteq> security_group_id sg) (security_groups (remote w))\<rparr>"
    and "registry w' = (registry w)
           (''security-groups'' := (registry w ''security-groups'')(security_group_id sg := None))"
proof -
  define w1 where "w1 = w\<lparr>calls := calls w @ [DescribeInstances]\<rparr>"
  define w2 where "w2 = w1\<lparr>calls := calls w1 @ [DescribeComputeEnvironments]\<rparr>"
  define w3 where "w3 = w2\<lparr>calls := calls w2 @ [DeleteSecurityGroup],
      remote := (remote w)\<lparr>security_groups :=
           filter (\<lambda>x. GroupId x \<noteq> security_group_id sg) (security_groups (remote w))\<rparr>\<rparr>"
  define w4 where "w4 = w3\<lparr>registry := (registry w3)
       (''security-groups'' := (registry w3 ''security-groups'')(security_group_id sg := None))\<rparr>"
  have deps: "filter (\<lambda>i. security_group_id sg \<in> set (in_SecurityGroups i))
                (filter (\<lambda>i. in_VpcId i = sg_vpc_id sg) (instances (remote w))) = []"
    using noinst by (auto simp: filter_empty_conv)
  have r1: "describe_instances (sg_vpc_id sg) w
      = (Inr (map (\<lambda>i. [i]) (filter (\<lambda>i. in_VpcId i = sg_vpc_id sg) (instances (remote w)))), w1)"
    by (simp add: describe_instances_def api_read_def api_def Let_def nofault w1_def)
  have nodeps: "concat (map (\<lambda>r. map InstanceId
                   (filter (\<lambda>i. security_group_id sg \<in> set (in_SecurityGroups i)) r))
                 (map (\<lambda>i. [i]) (filter (\<lambda>i. in_VpcId i = sg_vpc_id sg) (instances (remote w))))) = []"
    unfolding reservations_deps deps by simp
  have r2: "describe_compute_environments None w1 = (Inr (compute_environments (remote w)), w2)"
    by (simp add: describe_compute_environments_def api_read_def api_def Let_def nofault w1_def w2_def)
  have r3: "delete_security_group (security_group_id sg) w2 = (Inr (), w3)"
    using g noinst
    by (simp add: delete_security_group_def api_def Let_def nofault w1_def w2_def w3_def)
  have r4: "remove_resource ''security-groups'' (security_group_id sg) w3 = (Inr (), w4)"
    by (simp add: remove_resource_def w4_def)
  have run: "SecurityGroup_clobber sg w = (Inr sg, w4)"
    unfolding SecurityGroup_clobber_def
    by (simp only: bnd_apply r1 prod.case sum.case nodeps simp_thms if_False return_apply
          r2 noce for_each.simps catch_apply r3 r4)
  have rem: "remote w4 = (remote w)\<lparr>security_groups :=
           filter (\<lambda>x. GroupId x \<noteq> security_group_id sg) (security_groups (remote w))\<rparr>"
    by (simp add: w4_def w3_def)
  have reg: "registry w4 = (registry w)
           (''security-groups'' := (registry w ''security-groups'')(security_group_id sg := None))"
    by (simp add: w4_def w3_def w2_def w1_def)
  show thesis by (rule that [OF run rem reg])
qed

lemma only_group_gone:
  assumes only: "filter (\<lambda>x. sg_VpcId x = vid) gs = [g]"
  shows "filter (\<lambda>x. sg_VpcId x = vid) (filter (\<lambda>x. GroupId x \<noteq> GroupId g) gs) = []"
proof -
  have "filter (\<lambda>x. sg_VpcId x = vid) (filter (\<lambda>x. GroupId x \<noteq> GroupId g) gs)
      = filter (\<lambda>x. GroupId x \<noteq> GroupId g) (filter (\<lambda>x. sg_VpcId x = vid) gs)"
    by (simp add: conj_commute)
  also have "\<dots> = []" unfolding only by simp
  finally show ?thesis .
qed

text \<open>
  Claim C5. Take a remote without injected faults, an existing network \<open>v\<close> whose
  \<open>subnet_ids\<close> are the network's subnets, and a security group \<open>g\<close> of the remote in that
  network, so that the remote answers \<open>delete_vpc\<close> with \<open>DependencyViolation\<close>.
  \<^item> \<open>Vpc.clobber\<close> fails with \<open>CannotDeleteResourceException\<close> and the identifier of \<open>g\<close> is
    in the list it carries. The registry is as before and the network is still on the
    remote, but its subnets have been deleted.
  \<^item> If \<open>g\<close> is the only group of the network and neither an instance nor a compute
    environment uses it, then destroying the group first and the network after it
    succeeds: the network, its subnets and the group have left the remote, and the
    registry holds no entry for either.
  \<^item> When the network has a subnet and its destruction was tried before the group was
    destroyed, destroying the group and then the network through the same instance
    fails: the instance still lists the subnets that the first attempt deleted, the
    remote answers \<open>InvalidSubnetID.NotFound\<close>, and \<open>Vpc.clobber\<close> passes this error on. The
    network stays on the remote and in the registry.
\<close>

theorem network_destroy_blocked_by_security_group:
  "(fault (remote w) = (\<lambda>_. None) \<and> vpc_id v \<in> VpcId ` set (vpcs (remote w))
      \<and> subnet_ids v = map SubnetId (filter (\<lambda>s. sn_VpcId s = vpc_id v) (subnet_list (remote w)))
      \<and> distinct (map SubnetId (subnet_list (remote w)))
      \<and> g \<in> set (security_groups (remote w)) \<and> sg_VpcId g = vpc_id v
    \<longrightarrow> (\<exists>ids. fst (Vpc_clobber v w) = Inl (CannotDeleteResourceException ids)
               \<and> GroupId g \<in> set ids)
        \<and> registry (snd (Vpc_clobber v w)) = registry w
        \<and> vpc_id v \<in> VpcId ` set (vpcs (remote (snd (Vpc_clobber v w))))
        \<and> filter (\<lambda>s. sn_VpcId s = vpc_id v) (subnet_list (remote (snd (Vpc_clobber v w)))) = [])
   \<and> (fault (remote w) = (\<lambda>_. None) \<and> vpc_id v \<in> VpcId ` set (vpcs (remote w))
        \<and> subnet_ids v = map SubnetId (filter (\<lambda>s. sn_VpcId s = vpc_id v) (subnet_list (remote w)))
        \<and> distinct (map SubnetId (subnet_list (remote w)))
        \<and> filter (\<lambda>x. sg_VpcId x = vpc_id v) (security_groups (remote w)) = [g]
        \<and> security_group_id sg = GroupId g
        \<and> filter (\<lambda>i. GroupId g \<in> set (in_SecurityGroups i)) (instances (remote w)) = []
        \<and> filter (\<lambda>ce. GroupId g \<in> set (securityGroupIds ce)) (compute_environments (remote w)) = []
      \<longrightarrow> fst (SecurityGroup_clobber sg w) = Inr sg
          \<and> fst (Vpc_clobber v (snd (SecurityGroup_clobber sg w))) = Inr v
          \<and> vpc_id v \<notin> VpcId ` set (vpcs (remote
                (snd (Vpc_clobber v (snd (SecurityGroup_clobber sg w))))))
          \<and> filter (\<lambda>s. sn_VpcId s = vpc_id v) (subnet_list (remote
                (snd (Vpc_clobber v (snd (SecurityGroup_clobber sg w)))))) = []
          \<and> GroupId g \<notin> GroupId ` set (security_groups (remote
                (snd (Vpc_clobber v (snd (SecurityGroup_clobber sg w))))))
          \<and> registry (snd (Vpc_clobber v (snd (SecurityGroup_clobber sg w))))
               ''vpc'' (vpc_id v) = None
          \<and> registry (snd (Vpc_clobber v (snd (SecurityGroup_clobber sg w))))
               ''security-groups'' (GroupId g) = None)
   \<and> (fault (remote w) = (\<lambda>_. None) \<and> vpc_id v \<in> VpcId ` set (vpcs (remote w))
        \<and> subnet_ids v = map SubnetId (filter (\<lambda>s. sn_VpcId s = vpc_id v) (subnet_list (remote w)))
        \<and> subnet_ids v \<noteq> []
        \<and> distinct (map SubnetId (subnet_list (remote w)))
        \<and> filter (\<lambda>x. sg_VpcId x = vpc_id v) (security_groups (remote w)) = [g]
        \<and> security_group_id sg = GroupId g
        \<and> filter (\<lambda>i. GroupId g \<in> set (in_SecurityGroups i)) (instances (remote w)) = []
        \<and> filter (\<lambda>ce. GroupId g \<in> set (securityGroupIds ce)) (compute_environments (remote w)) = []
      \<longrightarrow> fst (Vpc_clobber v w) = Inl (CannotDeleteResourceException [GroupId g])
          \<and> fst (SecurityGroup_clobber sg (snd (Vpc_clobber v w))) = Inr sg
          \<and> fst (Vpc_clobber v (snd (SecurityGroup_clobber sg (snd (Vpc_clobber v w)))))
              = Inl (ClientError ''InvalidSubnetID.NotFound'')
          \<and> vpc_id v \<in> VpcId ` set (vpcs (remote
                (snd (Vpc_clobber v (snd (SecurityGroup_clobber sg (snd (Vpc_clobber v w))))))))
          \<and> registry (snd (Vpc_clobber v (snd (SecurityGroup_clobber sg (snd (Vpc_clobber v w))))))
               ''vpc'' (vpc_id v) = registry w ''vpc'' (vpc_id v))"
proof (intro conjI impI; elim conjE)
  assume a: "fault (remote w) = (\<lambda>_. None)" "vpc_id v \<in> VpcId ` set (vpcs (remote w))"
    "subnet_ids v = map SubnetId (filter (\<lambda>s. sn_VpcId s = vpc_id v) (subnet_list (remote w)))"
    "distinct (map SubnetId (subnet_list (remote w)))"
    "g \<in> set (security_groups (remote w))" "sg_VpcId g = vpc_id v"
  note r = Vpc_clobber_blocked [OF a]
  have in_ids: "GroupId g \<in> set (map GroupId (filter (\<lambda>g. sg_VpcId g = vpc_id v) (security_groups (remote w))))"
    using a(5,6) by simp
  have gone: "filter (\<lambda>s. sn_VpcId s = vpc_id v)
      (filter (\<lambda>s. SubnetId s \<notin> set (subnet_ids v)) (subnet_list (remote w))) = []"
    unfolding a(3) by (auto simp: filter_empty_conv)
  from r in_ids show "\<exists>ids. fst (Vpc_clobber v w) = Inl (CannotDeleteResourceException ids)
               \<and> GroupId g \<in> set ids"
    by (intro exI [of _ "map GroupId (filter (\<lambda>g. sg_VpcId g = vpc_id v) (security_groups (remote w)))"] conjI) simp_all
  from r show "registry (snd (Vpc_clobber v w)) = registry w" by simp
  from r a(2) show "vpc_id v \<in> VpcId ` set (vpcs (remote (snd (Vpc_clobber v w))))" by simp
  from r gone show "filter (\<lambda>s. sn_VpcId s = vpc_id v) (subnet_list (remote (snd (Vpc_clobber v w)))) = []"
    by simp
next
  assume a: "fault (remote w) = (\<lambda>_. None)" "vpc_id v \<in> VpcId ` set (vpcs (remote w))"
    and subs: "subnet_ids v = map SubnetId (filter (\<lambda>s. sn_VpcId s = vpc_id v) (subnet_list (remote w)))"
    and dist: "distinct (map SubnetId (subnet_list (remote w)))"
    and only: "filter (\<lambda>x. sg_VpcId x = vpc_id v) (security_groups (remote w)) = [g]"
    and sg: "security_group_id sg = GroupId g"
    and noinst: "filter (\<lambda>i. GroupId g \<in> set (in_SecurityGroups i)) (instances (remote w)) = []"
    and noce: "filter (\<lambda>ce. GroupId g \<in> set (securityGroupIds ce)) (compute_environments (remote w)) = []"
  have gin: "g \<in> set (security_groups (remote w))"
  proof -
    have "g \<in> set (filter (\<lambda>x. sg_VpcId x = vpc_id v) (security_groups (remote w)))"
      unfolding only by simp
    then show ?thesis by simp
  qed
  then have ex: "security_group_id sg \<in> GroupId ` set (security_groups (remote w))"
    unfolding sg by (rule imageI)
  obtain w' where run: "SecurityGroup_clobber sg w = (Inr sg, w')"
    and rem: "remote w' = (remote w)\<lparr>security_groups :=
           filter (\<lambda>x. GroupId x \<noteq> security_group_id sg) (security_groups (remote w))\<rparr>"
    and reg: "registry w' = (registry w)
           (''security-groups'' := (registry w ''security-groups'')(security_group_id sg := None))"
    by (rule SecurityGroup_clobber_succeeds [OF a(1) ex noinst [folded sg] noce [folded sg]])
  have nosg: "filter (\<lambda>x. sg_VpcId x = vpc_id v) (security_groups (remote w')) = []"
    using only_group_gone [OF only] by (simp add: rem sg)
  have gone: "filter (\<lambda>s. sn_VpcId s = vpc_id v)
      (filter (\<lambda>s. SubnetId s \<notin> set (subnet_ids v)) (subnet_list (remote w))) = []"
    unfolding subs by (auto simp: filter_empty_conv)
  have fin: "fst (Vpc_clobber v w') = Inr v
         \<and> vpcs (remote (snd (Vpc_clobber v w')))
             = filter (\<lambda>x. VpcId x \<noteq> vpc_id v) (vpcs (remote w'))
         \<and> subnet_list (remote (snd (Vpc_clobber v w')))
             = filter (\<lambda>s. SubnetId s \<notin> set (subnet_ids v)) (subnet_list (remote w'))
         \<and> security_groups (remote (snd (Vpc_clobber v w'))) = security_groups (remote w')
         \<and> registry (snd (Vpc_clobber v w'))
             = (registry w')(''vpc'' := (registry w' ''vpc'')(vpc_id v := None))"
    by (rule Vpc_clobber_succeeds) (simp_all add: rem a subs dist nosg [unfolded rem, simplified])
  from run show "fst (SecurityGroup_clobber sg w) = Inr sg" by simp
  from run fin show "fst (Vpc_clobber v (snd (SecurityGroup_clobber sg w))) = Inr v" by simp
  from run fin show "vpc_id v \<notin> VpcId ` set (vpcs (remote
                (snd (Vpc_clobber v (snd (SecurityGroup_clobber sg w))))))"
    by auto
  from run fin gone show "filter (\<lambda>s. sn_VpcId s = vpc_id v) (subnet_list (remote
                (snd (Vpc_clobber v (snd (SecurityGroup_clobber sg w)))))) = []"
    by (simp add: rem)
  from run fin show "GroupId g \<notin> GroupId ` set (security_groups (remote
                (snd (Vpc_clobber v (snd (SecurityGroup_clobber sg w))))))"
    by (auto simp: rem sg)
  from run fin show "registry (snd (Vpc_clobber v (snd (SecurityGroup_clobber sg w))))
               ''vpc'' (vpc_id v) = None"
    by simp
  from run fin show "registry (snd (Vpc_clobber v (snd (SecurityGroup_clobber sg w))))
               ''security-groups'' (GroupId g) = None"
    by (simp add: reg sg)
next
  assume a: "fault (remote w) = (\<lambda>_. None)" "vpc_id v \<in> VpcId ` set (vpcs (remote w))"
    and subs: "subnet_ids v = map SubnetId (filter (\<lambda>s. sn_VpcId s = vpc_id v) (subnet_list (remote w)))"
    and ne: "subnet_ids v \<noteq> []"
    and dist: "distinct (map SubnetId (subnet_list (remote w)))"
    and only: "filter (\<lambda>x. sg_VpcId x = vpc_id v) (security_groups (remote w)) = [g]"
    and sg: "security_group_id sg = GroupId g"
    and noinst: "filter (\<lambda>i. GroupId g \<in> set (in_SecurityGroups i)) (instances (remote w)) = []"
    and noce: "filter (\<lambda>ce. GroupId g \<in> set (securityGroupIds ce)) (compute_environments (remote w)) = []"
  have gin: "g \<in> set (security_groups (remote w))" and gv: "sg_VpcId g = vpc_id v"
  proof -
    have "g \<in> set (filter (\<lambda>x. sg_VpcId x = vpc_id v) (security_groups (remote w)))"
      unfolding only by simp
    then show "g \<in> set (security_groups (remote w))" and "sg_VpcId g = vpc_id v" by simp_all
  qed
  define wx where "wx = snd (Vpc_clobber v w)"
  note r = Vpc_clobber_blocked [OF a subs dist gin gv, folded wx_def]
  from r have remx: "remote wx = (remote w)\<lparr>subnet_list :=
              filter (\<lambda>s. SubnetId s \<notin> set (subnet_ids v)) (subnet_list (remote w))\<rparr>"
    and regx: "registry wx = registry w" by simp_all
  have ex: "security_group_id sg \<in> GroupId ` set (security_groups (remote wx))"
    unfolding sg remx using gin by simp
  obtain wy where run: "SecurityGroup_clobber sg wx = (Inr sg, wy)"
    and remy: "remote wy = (remote wx)\<lparr>security_groups :=
           filter (\<lambda>x. GroupId x \<noteq> security_group_id sg) (security_groups (remote wx))\<rparr>"
    and regy: "registry wy = (registry wx)
           (''security-groups'' := (registry wx ''security-groups'')(security_group_id sg := None))"
    by (rule SecurityGroup_clobber_succeeds [where sg = sg and w = wx])
       (simp_all add: remx a ex [unfolded remx, simplified] noinst [folded sg] noce [folded sg])
  from ne obtain sid sids where ids: "subnet_ids v = sid # sids" by (cases "subnet_ids v") simp_all
  have stale: "sid \<notin> SubnetId ` set (subnet_list (remote wy))"
    by (auto simp: remy remx ids)
  have fy: "fault (remote wy) DeleteSubnet = None" by (simp add: remy remx a)
  note last = Vpc_clobber_stale [OF fy ids stale]
  from r only show "fst (Vpc_clobber v w) = Inl (CannotDeleteResourceException [GroupId g])"
    by (simp add: wx_def)
  from run show "fst (SecurityGroup_clobber sg (snd (Vpc_clobber v w))) = Inr sg"
    by (simp add: wx_def)
  from run last
  show "fst (Vpc_clobber v (snd (SecurityGroup_clobber sg (snd (Vpc_clobber v w)))))
              = Inl (ClientError ''InvalidSubnetID.NotFound'')"
    by (simp add: wx_def [symmetric])
  from run last a(2)
  show "vpc_id v \<in> VpcId ` set (vpcs (remote
                (snd (Vpc_clobber v (snd (SecurityGroup_clobber sg (snd (Vpc_clobber v w))))))))"
    by (simp add: wx_def [symmetric] remy remx)
  from run last
  show "registry (snd (Vpc_clobber v (snd (SecurityGroup_clobber sg (snd (Vpc_clobber v w))))))
               ''vpc'' (vpc_id v) = registry w ''vpc'' (vpc_id v)"
    by (simp add: wx_def [symmetric] regy regx)
qed

theorem network_destroy_blocked_by_security_group_witness:
  "fst (Vpc_clobber demo_vpc1_subnet subnet_world) = Inl (CannotDeleteResourceException [''sg-1''])
   \<and> subnet_list (remote (snd (Vpc_clobber demo_vpc1_subnet subnet_world))) = []
   \<and> fst (SecurityGroup_clobber demo_sg1 subnet_world) = Inr demo_sg1
   \<and> fst (Vpc_clobber demo_vpc1_subnet (snd (SecurityGroup_clobber demo_sg1 subnet_world)))
       = Inr demo_vpc1_subnet
   \<and> map VpcId (vpcs (remote (snd (Vpc_clobber demo_vpc1_subnet
         (snd (SecurityGroup_clobber demo_sg1 subnet_world)))))) = [''vpc-2'']
   \<and> fst (SecurityGroup_clobber demo_sg1 (snd (Vpc_clobber demo_vpc1_subnet subnet_world)))
       = Inr demo_sg1
   \<and> fst (Vpc_clobber demo_vpc1_subnet
            (snd (SecurityGroup_clobber demo_sg1 (snd (Vpc_clobber demo_vpc1_subnet subnet_world)))))
       = Inl (ClientError ''InvalidSubnetID.NotFound'')
   \<and> map VpcId (vpcs (remote (snd (Vpc_clobber demo_vpc1_subnet
         (snd (SecurityGroup_clobber demo_sg1 (snd (Vpc_clobber demo_vpc1_subnet subnet_world))))))))
       = [''vpc-1'', ''vpc-2'']"
  using network_destroy_blocked_by_security_group
    [of subnet_world demo_vpc1_subnet
        "\<lparr>GroupId = ''sg-1'', GroupName = ''web'', sg_VpcId = ''vpc-1'',
          sg_Description = ''web servers'', IpPermissions = []\<rparr>" demo_sg1]
  by (simp add: run_defs demo_defs subnet_world_def demo_vpc1_subnet_def)

section \<open>Constructing twice\<close>

lemma filter_set_tag_other:
  "k \<noteq> k' \<Longrightarrow> filter (\<lambda>d. fst d = k) (set_tag (k', v) ts) = filter (\<lambda>d. fst d = k) ts"
  by (induction ts) auto

lemma filter_set_tag_new:
  "filter (\<lambda>d. fst d = k) ts = [] \<Longrightarrow> filter (\<lambda>d. fst d = k) (set_tag (k, v) ts) = [(k, v)]"
  by (induction ts) (auto split: if_splits)

lemma set_tag_not_Nil: "set_tag (k, v) ts \<noteq> []"
  by (cases ts) (auto split: if_splits)

lemma retry_loop_first_attempt:
  "m w = (Inr x, w') \<Longrightarrow> \<not> rr x \<Longrightarrow> retry_loop rx rr n m w = (Inr x, w')"
  by (cases n) simp_all

lemma Vpc_init_by_id_named:
  assumes "vid \<noteq> []"
    and "fault (remote w) DescribeVpcs = None" and "fault (remote w) DescribeSubnets = None"
    and vd: "filter (\<lambda>v. VpcId v = vid) (vpcs (remote w)) = vd # rest"
    and nt: "filter (\<lambda>d. fst d = ''Name'') (tags (remote w) vid) = nt # nts"
  shows "fst (Vpc_init (Some vid) None None None w)
           = Inr \<lparr>name = snd nt, clobbered = False, pre_existing = True,
                  ipv4_cidr = CidrBlock vd, instance_tenancy = InstanceTenancy vd, vpc_id = vid,
                  subnet_ids = map SubnetId (filter (\<lambda>s. sn_VpcId s = vid) (subnet_list (remote w)))\<rparr>
         \<and> remote (snd (Vpc_init (Some vid) None None None w)) = remote w"
proof -
  from vd have id: "VpcId vd = vid" by (auto simp: filter_eq_Cons_iff)
  from nt have ne: "tags (remote w) vid \<noteq> []" by auto
  show ?thesis
    using assms(1-3) by (simp add: run_defs vd nt id ne)
qed

lemma Vpc_init_by_id_unnamed:
  assumes "vid \<noteq> []"
    and "fault (remote w) DescribeVpcs = None" and "fault (remote w) DescribeSubnets = None"
    and "fault (remote w) CreateTags = None"
    and vd: "filter (\<lambda>v. VpcId v = vid) (vpcs (remote w)) = vd # rest"
    and nt: "filter (\<lambda>d. fst d = ''Name'') (tags (remote w) vid) = []"
  shows "fst (Vpc_init (Some vid) None None None w)
           = Inr \<lparr>name = ''cloudknot-acquired-pre-existing-vpc'', clobbered = False,
                  pre_existing = True,
                  ipv4_cidr = CidrBlock vd, instance_tenancy = InstanceTenancy vd, vpc_id = vid,
                  subnet_ids = map SubnetId (filter (\<lambda>s. sn_VpcId s = vid) (subnet_list (remote w)))\<rparr>
         \<and> remote (snd (Vpc_init (Some vid) None None None w))
           = (remote w)\<lparr>tags := (\<lambda>r. if r \<in> set [vid]
                 then fold set_tag [(''owner'', ''cloudknot''),
                        (''Name'', ''cloudknot-acquired-pre-existing-vpc'')] (tags (remote w) r)
                 else tags (remote w) r)\<rparr>"
proof -
  from vd have id: "VpcId vd = vid" by (auto simp: filter_eq_Cons_iff)
  show ?thesis
    using assms(1-4) by (simp add: run_defs vd nt id split: option.splits cong: if_cong)
qed

lemma Vpc_init_by_name_found:
  assumes "n \<noteq> []"
    and "fault (remote w) DescribeTags = None"
    and "fault (remote w) DescribeVpcs = None" and "fault (remote w) DescribeSubnets = None"
    and hit: "filter (\<lambda>v. (''Name'', n) \<in> set (tags (remote w) (VpcId v))) (vpcs (remote w))
                = vh # others"
    and vd: "filter (\<lambda>v. VpcId v = VpcId vh) (vpcs (remote w)) = vd # rest"
    and nt: "filter (\<lambda>d. fst d = ''Name'') (tags (remote w) (VpcId vh)) = nt # nts"
  shows "fst (Vpc_init None (Some n) None None w)
           = Inr \<lparr>name = snd nt, clobbered = False, pre_existing = True,
                  ipv4_cidr = CidrBlock vd, instance_tenancy = InstanceTenancy vd,
                  vpc_id = VpcId vh,
                  subnet_ids = map SubnetId
                    (filter (\<lambda>s. sn_VpcId s = VpcId vh) (subnet_list (remote w)))\<rparr>
         \<and> remote (snd (Vpc_init None (Some n) None None w)) = remote w"
proof -
  from vd have id: "VpcId vd = VpcId vh" by (auto simp: filter_eq_Cons_iff)
  from nt have ne: "tags (remote w) (VpcId vh) \<noteq> []" by auto
  show ?thesis
    using assms(1-4) by (simp add: run_defs hit vd nt id ne)
qed

lemma SecurityGroup_init_by_id_found:
  assumes "gid \<noteq> []" and "fault (remote w) DescribeSecurityGroups = None"
    and g: "filter (\<lambda>g. GroupId g = gid) (security_groups (remote w)) = g # gs"
  shows "fst (SecurityGroup_init (Some gid) None VpcNone None w)
           = Inr \<lparr>name = GroupName g, clobbered = False, sg_pre_existing = True, vpc = None,
                  sg_vpc_id = sg_VpcId g, description = sg_Description g,
                  security_group_id = gid\<rparr>
         \<and> remote (snd (SecurityGroup_init (Some gid) None VpcNone None w)) = remote w"
proof -
  from g have id: "GroupId g = gid" by (auto simp: filter_eq_Cons_iff)
  show ?thesis
    using assms(1-2) by (simp add: run_defs g id)
qed

lemma IamRole_init_by_name_found:
  assumes f1: "fault (remote w) GetRole = None"
    and f2: "fault (remote w) ListAttachedRolePolicies = None"
    and r: "filter (\<lambda>r. RoleName r = nm) (roles (remote w)) = r # rs"
    and st: "Statement (AssumeRolePolicyDocument r) = st # sts"
  shows "fst (IamRole_init nm None None (PySeq []) (PyBool False) w)
           = Inr \<lparr>name = nm, clobbered = False, arn = Arn r, region = ''global'',
                  role_pre_existing = True,
                  role_description = (case Description r of Some d \<Rightarrow> d | None \<Rightarrow> []),
                  service = Principal_Service st, policies = AttachedPolicies r,
                  role_policy_document = AssumeRolePolicyDocument r,
                  section_name = ''roles''\<rparr>
         \<and> remote (snd (IamRole_init nm None None (PySeq []) (PyBool False) w)) = remote w"
proof -
  have g: "get_role nm w = (Inr r, w\<lparr>calls := calls w @ [GetRole]\<rparr>)"
    using f1 by (simp add: get_role_def api_read_def api_def Let_def r)
  have r1: "retry_if_exception_type is_NoSuchEntity 4 5 (get_role nm) w
              = (Inr r, w\<lparr>calls := calls w @ [GetRole]\<rparr>)"
    unfolding retry_if_exception_type_def Retrying_call_def
    by (rule retry_loop_first_attempt [where m = "get_role nm" and w = w, OF g]) simp
  have ex: "IamRole_exists_already nm w
      = (Inr (Some \<lparr>rx_description = (case Description r of Some d \<Rightarrow> d | None \<Rightarrow> []),
                     rx_role_policy_document = AssumeRolePolicyDocument r,
                     rx_policies = AttachedPolicies r, rx_arn = Arn r\<rparr>),
         w\<lparr>calls := calls w @ [GetRole, ListAttachedRolePolicies]\<rparr>)"
    using f2
    by (simp add: IamRole_exists_already_def catch_apply bnd_apply r1 return_apply
          list_attached_role_policies_def api_read_def api_def Let_def r)
  show ?thesis
    by (simp add: IamRole_init_def bnd_apply ex truthy_def st return_apply add_resource_def
          get_section_name_def)
qed

text \<open>
  Claim C1. Take a resource that the remote holds and whose lookups the remote answers,
  and construct its controller twice with identification parameters only, not destroying
  in between: a network by its \<open>vpc_id\<close> or by its \<open>Name\<close> tag, a security group by its
  \<open>security_group_id\<close>, a role by its name (whose trust policy has a statement). Both
  constructions succeed, and they return the same instance: the same name, the same
  remote identifier and the same kind-specific attributes. This holds also for a network
  without a \<open>Name\<close> tag, which the first construction tags with the name it then carries.
  (For a security group the identifier is the only identification parameter: a name
  and a network given for an existing group make the constructor fail.)
\<close>

theorem adopting_twice_gives_the_same_instance:
  "(vid \<noteq> [] \<and> fault (remote wa) DescribeVpcs = None
      \<and> fault (remote wa) DescribeSubnets = None \<and> fault (remote wa) CreateTags = None
      \<and> filter (\<lambda>v. VpcId v = vid) (vpcs (remote wa)) \<noteq> []
    \<longrightarrow> (\<exists>v. fst (Vpc_init (Some vid) None None None wa) = Inr v
            \<and> fst (Vpc_init (Some vid) None None None
                     (snd (Vpc_init (Some vid) None None None wa))) = Inr v
            \<and> vpc_id v = vid))
   \<and> (n \<noteq> [] \<and> fault (remote wb) DescribeTags = None
        \<and> fault (remote wb) DescribeVpcs = None \<and> fault (remote wb) DescribeSubnets = None
        \<and> filter (\<lambda>v. (''Name'', n) \<in> set (tags (remote wb) (VpcId v))) (vpcs (remote wb)) \<noteq> []
      \<longrightarrow> (\<exists>v. fst (Vpc_init None (Some n) None None wb) = Inr v
              \<and> fst (Vpc_init None (Some n) None None
                       (snd (Vpc_init None (Some n) None None wb))) = Inr v
              \<and> (''Name'', n) \<in> set (tags (remote wb) (vpc_id v))))
   \<and> (gid \<noteq> [] \<and> fault (remote wc) DescribeSecurityGroups = None
        \<and> filter (\<lambda>g. GroupId g = gid) (security_groups (remote wc)) \<noteq> []
      \<longrightarrow> (\<exists>g. fst (SecurityGroup_init (Some gid) None VpcNone None wc) = Inr g
              \<and> fst (SecurityGroup_init (Some gid) None VpcNone None
                       (snd (SecurityGroup_init (Some gid) None VpcNone None wc))) = Inr g
              \<and> security_group_id g = gid))
   \<and> (fault (remote wd) GetRole = None \<and> fault (remote wd) ListAttachedRolePolicies = None
        \<and> filter (\<lambda>r. RoleName r = role_name) (roles (remote wd)) = rd # rds
        \<and> Statement (AssumeRolePolicyDocument rd) \<noteq> []
      \<longrightarrow> (\<exists>ro. fst (IamRole_init role_name None None (PySeq []) (PyBool False) wd) = Inr ro
              \<and> fst (IamRole_init role_name None None (PySeq []) (PyBool False)
                       (snd (IamRole_init role_name None None (PySeq []) (PyBool False) wd))) = Inr ro
              \<and> name ro = role_name \<and> arn ro = Arn rd))"
proof (intro conjI impI; elim conjE)
  let ?I = "Vpc_init (Some vid) None None None"
  assume h: "vid \<noteq> []" "fault (remote wa) DescribeVpcs = None"
    "fault (remote wa) DescribeSubnets = None" "fault (remote wa) CreateTags = None"
    and ex: "filter (\<lambda>v. VpcId v = vid) (vpcs (remote wa)) \<noteq> []"
  from ex obtain vd rest where vd: "filter (\<lambda>v. VpcId v = vid) (vpcs (remote wa)) = vd # rest"
    by (cases "filter (\<lambda>v. VpcId v = vid) (vpcs (remote wa))") simp_all
  show "\<exists>v. fst (?I wa) = Inr v \<and> fst (?I (snd (?I wa))) = Inr v \<and> vpc_id v = vid"
  proof (cases "filter (\<lambda>d. fst d = ''Name'') (tags (remote wa) vid)")
    case Nil
    note first = Vpc_init_by_id_unnamed [OF h vd Nil]
    from first have rem: "remote (snd (?I wa))
           = (remote wa)\<lparr>tags := (\<lambda>r. if r \<in> set [vid]
                 then fold set_tag [(''owner'', ''cloudknot''),
                        (''Name'', ''cloudknot-acquired-pre-existing-vpc'')] (tags (remote wa) r)
                 else tags (remote wa) r)\<rparr>" by simp
    have nt: "filter (\<lambda>d. fst d = ''Name'') (tags (remote (snd (?I wa))) vid)
                = (''Name'', ''cloudknot-acquired-pre-existing-vpc'') # []"
      by (simp add: rem filter_set_tag_other filter_set_tag_new Nil)
    have second: "fst (?I (snd (?I wa)))
           = Inr \<lparr>name = snd (''Name'', ''cloudknot-acquired-pre-existing-vpc''),
                  clobbered = False, pre_existing = True,
                  ipv4_cidr = CidrBlock vd, instance_tenancy = InstanceTenancy vd, vpc_id = vid,
                  subnet_ids = map SubnetId (filter (\<lambda>s. sn_VpcId s = vid)
                     (subnet_list (remote (snd (?I wa)))))\<rparr>
         \<and> remote (snd (?I (snd (?I wa)))) = remote (snd (?I wa))"
      by (rule Vpc_init_by_id_named [OF h(1) _ _ _ nt, where vd = vd and rest = rest])
         (simp_all add: rem h vd)
    from first second show ?thesis by (simp add: rem)
  next
    case (Cons nt nts)
    note first = Vpc_init_by_id_named [OF h(1-3) vd Cons]
    from first have rem: "remote (snd (?I wa)) = remote wa" by simp
    have second: "fst (?I (snd (?I wa)))
           = Inr \<lparr>name = snd nt, clobbered = False, pre_existing = True,
                  ipv4_cidr = CidrBlock vd, instance_tenancy = InstanceTenancy vd, vpc_id = vid,
                  subnet_ids = map SubnetId (filter (\<lambda>s. sn_VpcId s = vid)
                     (subnet_list (remote (snd (?I wa)))))\<rparr>
         \<and> remote (snd (?I (snd (?I wa)))) = remote (snd (?I wa))"
      by (rule Vpc_init_by_id_named [OF h(1), where vd = vd and rest = rest and nt = nt and nts = nts])
         (simp_all add: rem h vd Cons)
    from first second show ?thesis by (simp add: rem)
  qed
next
  let ?I = "Vpc_init None (Some n) None None"
  assume h: "n \<noteq> []" "fault (remote wb) DescribeTags = None"
    "fault (remote wb) DescribeVpcs = None" "fault (remote wb) DescribeSubnets = None"
    and ex: "filter (\<lambda>v. (''Name'', n) \<in> set (tags (remote wb) (VpcId v))) (vpcs (remote wb)) \<noteq> []"
  from ex obtain vh others where
    hit: "filter (\<lambda>v. (''Name'', n) \<in> set (tags (remote wb) (VpcId v))) (vpcs (remote wb)) = vh # others"
    by (cases "filter (\<lambda>v. (''Name'', n) \<in> set (tags (remote wb) (VpcId v))) (vpcs (remote wb))")
       simp_all
  then have vh: "vh \<in> set (vpcs (remote wb))" and tg: "(''Name'', n) \<in> set (tags (remote wb) (VpcId vh))"
    by (auto simp: filter_eq_Cons_iff)
  from vh have "filter (\<lambda>v. VpcId v = VpcId vh) (vpcs (remote wb)) \<noteq> []"
    by (auto simp: filter_empty_conv)
  then obtain vd rest where vd: "filter (\<lambda>v. VpcId v = VpcId vh) (vpcs (remote wb)) = vd # rest"
    by (cases "filter (\<lambda>v. VpcId v = VpcId vh) (vpcs (remote wb))") simp_all
  from tg have "filter (\<lambda>d. fst d = ''Name'') (tags (remote wb) (VpcId vh)) \<noteq> []"
    by (force simp: filter_empty_conv)
  then obtain nt nts where nt: "filter (\<lambda>d. fst d = ''Name'') (tags (remote wb) (VpcId vh)) = nt # nts"
    by (cases "filter (\<lambda>d. fst d = ''Name'') (tags (remote wb) (VpcId vh))") simp_all
  note first = Vpc_init_by_name_found [OF h hit vd nt]
  from first have rem: "remote (snd (?I wb)) = remote wb" by simp
  have second: "fst (?I (snd (?I wb)))
           = Inr \<lparr>name = snd nt, clobbered = False, pre_existing = True,
                  ipv4_cidr = CidrBlock vd, instance_tenancy = InstanceTenancy vd,
                  vpc_id = VpcId vh,
                  subnet_ids = map SubnetId
                    (filter (\<lambda>s. sn_VpcId s = VpcId vh) (subnet_list (remote (snd (?I wb)))))\<rparr>
         \<and> remote (snd (?I (snd (?I wb)))) = remote (snd (?I wb))"
    by (rule Vpc_init_by_name_found
          [where vh = vh and others = others and vd = vd and rest = rest and nt = nt and nts = nts])
       (simp_all add: rem h hit vd nt)
  from first second tg
  show "\<exists>v. fst (?I wb) = Inr v \<and> fst (?I (snd (?I wb))) = Inr v
          \<and> (''Name'', n) \<in> set (tags (remote wb) (vpc_id v))"
    by (simp add: rem)
next
  let ?I = "SecurityGroup_init (Some gid) None VpcNone None"
  assume h: "gid \<noteq> []" "fault (remote wc) DescribeSecurityGroups = None"
    and ex: "filter (\<lambda>g. GroupId g = gid) (security_groups (remote wc)) \<noteq> []"
  from ex obtain g gs where g: "filter (\<lambda>g. GroupId g = gid) (security_groups (remote wc)) = g # gs"
    by (cases "filter (\<lambda>g. GroupId g = gid) (security_groups (remote wc))") simp_all
  note first = SecurityGroup_init_by_id_found [OF h g]
  from first have rem: "remote (snd (?I wc)) = remote wc" by simp
  have second: "fst (?I (snd (?I wc)))
           = Inr \<lparr>name = GroupName g, clobbered = False, sg_pre_existing = True, vpc = None,
                  sg_vpc_id = sg_VpcId g, description = sg_Description g,
                  security_group_id = gid\<rparr>
         \<and> remote (snd (?I (snd (?I wc)))) = remote (snd (?I wc))"
    by (rule SecurityGroup_init_by_id_found [where g = g and gs = gs]) (simp_all add: rem h g)
  from first second
  show "\<exists>g. fst (?I wc) = Inr g \<and> fst (?I (snd (?I wc))) = Inr g \<and> security_group_id g = gid"
    by simp
next
  let ?I = "IamRole_init role_name None None (PySeq []) (PyBool False)"
  assume h: "fault (remote wd) GetRole = None" "fault (remote wd) ListAttachedRolePolicies = None"
    and r: "filter (\<lambda>r. RoleName r = role_name) (roles (remote wd)) = rd # rds"
    and ex: "Statement (AssumeRolePolicyDocument rd) \<noteq> []"
  from ex obtain st sts where st: "Statement (AssumeRolePolicyDocument rd) = st # sts"
    by (cases "Statement (AssumeRolePolicyDocument rd)") simp_all
  note first = IamRole_init_by_name_found [OF h r st]
  from first have rem: "remote (snd (?I wd)) = remote wd" by simp
  have second: "fst (?I (snd (?I wd)))
           = Inr \<lparr>name = role_name, clobbered = False, arn = Arn rd, region = ''global'',
                  role_pre_existing = True,
                  role_description = (case Description rd of Some d \<Rightarrow> d | None \<Rightarrow> []),
                  service = Principal_Service st, policies = AttachedPolicies rd,
                  role_policy_document = AssumeRolePolicyDocument rd,
                  section_name = ''roles''\<rparr>
         \<and> remote (snd (?I (snd (?I wd)))) = remote (snd (?I wd))"
    by (rule IamRole_init_by_name_found [where r = rd and rs = rds and st = st and sts = sts])
       (simp_all add: rem h r st)
  from first second
  show "\<exists>ro. fst (?I wd) = Inr ro \<and> fst (?I (snd (?I wd))) = Inr ro
          \<and> name ro = role_name \<and> arn ro = Arn rd"
    by simp
qed

theorem adopting_twice_gives_the_same_instance_witness:
  "fst (Vpc_init (Some ''vpc-1'') None None None demo_world) = Inr demo_vpc1
   \<and> fst (Vpc_init (Some ''vpc-1'') None None None
            (snd (Vpc_init (Some ''vpc-1'') None None None demo_world))) = Inr demo_vpc1
   \<and> fst (Vpc_init None (Some ''net2'') None None demo_world) = Inr demo_vpc2
   \<and> fst (Vpc_init None (Some ''net2'') None None
            (snd (Vpc_init None (Some ''net2'') None None demo_world))) = Inr demo_vpc2
   \<and> fst (SecurityGroup_init (Some ''sg-1'') None VpcNone None demo_world) = Inr demo_sg1
   \<and> fst (SecurityGroup_init (Some ''sg-1'') None VpcNone None
            (snd (SecurityGroup_init (Some ''sg-1'') None VpcNone None demo_world))) = Inr demo_sg1
   \<and> fst (IamRole_init ''r1'' None None (PySeq []) (PyBool False) demo_world) = Inr demo_role1
   \<and> fst (IamRole_init ''r1'' None None (PySeq []) (PyBool False)
            (snd (IamRole_init ''r1'' None None (PySeq []) (PyBool False) demo_world)))
       = Inr demo_role1"
  using adopting_twice_gives_the_same_instance
    [where vid = "''vpc-1''" and wa = demo_world and n = "''net2''" and wb = demo_world
       and gid = "''sg-1''" and wc = demo_world and role_name = "''r1''" and wd = demo_world
       and rd = "\<lparr>RoleName = ''r1'', Arn = ''arn:r1'',
                 AssumeRolePolicyDocument =
                   \<lparr>Statement = [\<lparr>Effect = ''Allow'', Principal_Service = ''batch.amazonaws.com'',
                                   Action = ''sts:AssumeRole''\<rparr>]\<rparr>,
                 Description = None, AttachedPolicies = [''P'']\<rparr>" and rds = "[]"]
  by (simp add: run_defs demo_defs)

section \<open>The retry loops\<close>




















end
